theory Spec2Isabelle
  imports Complex_Main "HOL-Library.AList"
begin

section \<open>The savings goals engine of MonetIQ (goals/savings\_goals.py)\<close>

text \<open>
  The development follows \<^verbatim>\<open>SavingsGoalsEngine\<close> method by method.

  \<^item> Amounts are Python floats in the source. They are modelled as exact reals: the
    arithmetic of the model has no binary rounding, no infinities and no NaN. The calls of
    \<^verbatim>\<open>round(x, n)\<close> are modelled (\<open>py_round\<close>), since they change the values returned.
  \<^item> Every exception the modelled code can raise is a value \<open>Inl e\<close>; a normal return is
    \<open>Inr\<close>.
  \<^item> \<^verbatim>\<open>datetime.now()\<close> is read from a clock \<open>clk\<close>, the sequence of the successive
    readings of the wall clock: a function that has made \<open>i\<close> readings so far gets
    \<open>clk i\<close> from the next one and returns the number of readings made.
  \<^item> The texts built with f-strings are modelled by their template and its arguments
    (\<open>message\<close>): the text is a function of these.
\<close>

subsection \<open>Python values\<close>

datatype error = ZeroDivisionError | ValueError | TypeError | OverflowError

text \<open>\<^verbatim>\<open>round(x, n)\<close>: to \<open>n\<close> decimals, a tie going to the even neighbour.\<close>

definition round_half_even :: "real \<Rightarrow> int" where
  "round_half_even y =
     (let f = \<lfloor>y\<rfloor>; d = y - of_int f
      in if d < 1 / 2 then f else if 1 / 2 < d then f + 1 else if even f then f else f + 1)"

definition py_round :: "real \<Rightarrow> nat \<Rightarrow> real" where
  "py_round x n = of_int (round_half_even (x * 10 ^ n)) / 10 ^ n"

text \<open>\<^verbatim>\<open>int(x)\<close> on a float truncates towards zero.\<close>

definition py_int :: "real \<Rightarrow> int" where
  "py_int x = (if 0 \<le> x then \<lfloor>x\<rfloor> else \<lceil>x\<rceil>)"

text \<open>\<^verbatim>\<open>a / b\<close> raises on a zero divisor.\<close>

definition py_div :: "real \<Rightarrow> real \<Rightarrow> error + real" where
  "py_div a b = (if b = 0 then Inl ZeroDivisionError else Inr (a / b))"

text \<open>
  A datetime, as far as the engine uses one: its \<^verbatim>\<open>.year\<close> and \<^verbatim>\<open>.month\<close>, and its
  position on the time line in microseconds since 0001-01-01T00:00:00 (comparison,
  difference, adding a timedelta). All datetimes are naive, as \<^verbatim>\<open>datetime.now()\<close> is.
\<close>

record datetime =
  year :: int
  month :: int
  micros :: int

type_synonym clock = "nat \<Rightarrow> datetime"

text \<open>
  A date text is represented by what \<^verbatim>\<open>datetime.fromisoformat\<close> makes of it: the datetime
  it denotes, or a \<^verbatim>\<open>ValueError\<close>. The empty text is kept apart, since it is falsy.
\<close>

datatype iso_text = Iso datetime | Empty_text | Malformed_text

fun fromisoformat :: "iso_text \<Rightarrow> error + datetime" where
  "fromisoformat (Iso d) = Inr d"
| "fromisoformat Empty_text = Inl ValueError"
| "fromisoformat Malformed_text = Inl ValueError"

text \<open>Truthiness of an \<^verbatim>\<open>Optional[str]\<close>: \<^verbatim>\<open>None\<close> and the empty text are false.\<close>

fun truthy :: "iso_text option \<Rightarrow> bool" where
  "truthy None = False"
| "truthy (Some Empty_text) = False"
| "truthy (Some (Iso d)) = True"
| "truthy (Some Malformed_text) = True"

text \<open>
  The month count on which all the elapsed-time arithmetic rests, written inline in the
  source: \<^verbatim>\<open>(b.year - a.year) * 12 + (b.month - a.month)\<close>.
\<close>

definition months_between :: "datetime \<Rightarrow> datetime \<Rightarrow> int" where
  "months_between a b = (year b - year a) * 12 + (month b - month a)"

subsection \<open>Data classes and signals\<close>

record goal =
  goal_id :: string
  name :: string
  goal_type :: string
  target_amount :: real
  current_amount :: real
  target_date :: "iso_text option"
  priority :: string
  monthly_contribution :: real
  created_date :: iso_text
  last_updated :: iso_text
  description :: "string option"

record goal_progress =
  progress_goal_id :: string
  completion_percentage :: real
  time_elapsed_percentage :: real
  expected_progress :: real
  actual_progress :: real
  variance :: real
  on_track :: bool
  months_elapsed :: int
  months_remaining :: "int option"

text \<open>
  The sections of \<^verbatim>\<open>self.state\<close> that the engine reads. A section or a key may be
  absent (\<open>None\<close>): the source reads each with \<^verbatim>\<open>.get(key, default)\<close>.
\<close>

record income_section =
  monthly_income :: "real option"

record expenses_section =
  monthly_total :: "real option"

record overspending_section =
  is_overspending :: "bool option"
  overspending_amount :: "real option"
  affected_categories :: "string list option"
  severity :: "string option"

record stress_section =
  stress_score :: "real option"
  stress_level :: "string option"
  is_stressed :: "bool option"

text \<open>A numeric field of a raw goal record, by what \<^verbatim>\<open>float()\<close> makes of it.\<close>

datatype raw_number =
    Number real
  | Numeric_text real
  | Unparseable_text
  | Null_value

fun py_float :: "raw_number \<Rightarrow> error + real" where
  "py_float (Number x) = Inr x"
| "py_float (Numeric_text x) = Inr x"
| "py_float Unparseable_text = Inl ValueError"
| "py_float Null_value = Inl TypeError"

record raw_goal =
  raw_name :: "string option"
  raw_type :: "string option"
  raw_target_amount :: "raw_number option"
  raw_current_amount :: "raw_number option"
  raw_target_date :: "iso_text option"
  raw_priority :: "string option"
  raw_monthly_contribution :: "raw_number option"
  raw_created_date :: "iso_text option"
  raw_last_updated :: "iso_text option"
  raw_description :: "string option"

record app_state =
  income :: "income_section option"
  expenses :: "expenses_section option"
  savings_goals :: "(string \<times> raw_goal) list option"
  overspending :: "overspending_section option"
  stress_index :: "stress_section option"

text \<open>
  The engine object: \<^verbatim>\<open>self.state\<close> and \<^verbatim>\<open>self.goals\<close> (a dict, in insertion order).
  The caches \<^verbatim>\<open>self.income_data\<close>, \<^verbatim>\<open>self.expense_data\<close>, \<^verbatim>\<open>self.overspending_data\<close>
  and \<^verbatim>\<open>self.stress_data\<close> are not fields of the model: every method that reads one has
  called the getter that fills it from \<^verbatim>\<open>self.state\<close> first, so a read of the cache is a
  read of the getter's result.
\<close>

record engine =
  state :: app_state
  goals :: "(string \<times> goal) list"

subsection \<open>Data access layer\<close>

text \<open>\<^verbatim>\<open>get_income\<close>, \<^verbatim>\<open>get_expenses\<close>: the one key the engine uses of each.\<close>

definition get_income :: "engine \<Rightarrow> real" where
  "get_income e =
     (case income (state e) of None \<Rightarrow> 0
      | Some sec \<Rightarrow> (case monthly_income sec of None \<Rightarrow> 0 | Some v \<Rightarrow> v))"

definition get_expenses :: "engine \<Rightarrow> real" where
  "get_expenses e =
     (case expenses (state e) of None \<Rightarrow> 0
      | Some sec \<Rightarrow> (case monthly_total sec of None \<Rightarrow> 0 | Some v \<Rightarrow> v))"

text \<open>
  \<^verbatim>\<open>get_overspending_data\<close>, \<^verbatim>\<open>get_stress_index\<close>: the section of the state, or the
  default dict when the state has none.
\<close>

definition get_overspending_data :: "engine \<Rightarrow> overspending_section" where
  "get_overspending_data e =
     (case overspending (state e) of
        None \<Rightarrow> \<lparr>is_overspending = Some False, overspending_amount = Some 0,
                 affected_categories = Some [], severity = Some ''low''\<rparr>
      | Some sec \<Rightarrow> sec)"

definition get_stress_index :: "engine \<Rightarrow> stress_section" where
  "get_stress_index e =
     (case stress_index (state e) of
        None \<Rightarrow> \<lparr>stress_score = Some 0, stress_level = Some ''low'', is_stressed = Some False\<rparr>
      | Some sec \<Rightarrow> sec)"

text \<open>\<^verbatim>\<open>d.get(key, default)\<close> on an optional key.\<close>

definition get_or :: "'a option \<Rightarrow> 'a \<Rightarrow> 'a" where
  "get_or v d = (case v of None \<Rightarrow> d | Some x \<Rightarrow> x)"

subsection \<open>Progress\<close>

definition calculate_goal_progress ::
  "goal \<Rightarrow> clock \<Rightarrow> nat \<Rightarrow> error + goal_progress \<times> nat" where
  "calculate_goal_progress g clk i =
     (let completion = min (if 0 < target_amount g
                            then current_amount g / target_amount g * 100 else 0) 100
      in case fromisoformat (created_date g) of
           Inl err \<Rightarrow> Inl err
         | Inr created \<Rightarrow>
             let current_date = clk i;
                 elapsed = max 1 (months_between created current_date)
             in case (if truthy (target_date g)
                      then (case fromisoformat (the (target_date g)) of
                              Inl err \<Rightarrow> Inl err
                            | Inr target \<Rightarrow>
                                let total_months = max 1 (months_between created target)
                                in Inr (Some (max 0 (months_between current_date target)),
                                        if 0 < total_months
                                        then of_int elapsed / of_int total_months * 100 else 0))
                      else Inr (None, 0)) of
                  Inl err \<Rightarrow> Inl err
                | Inr (remaining_months, time_elapsed) \<Rightarrow>
                    let expected = (if truthy (target_date g) then time_elapsed else 0);
                        actual = completion;
                        var = actual - expected;
                        track = (if truthy (target_date g) then - 10 \<le> var
                                 else monthly_contribution g * of_int elapsed * 0.9
                                        \<le> current_amount g)
                    in Inr (\<lparr>progress_goal_id = goal_id g,
                              completion_percentage = py_round completion 2,
                              time_elapsed_percentage = py_round time_elapsed 2,
                              expected_progress = py_round expected 2,
                              actual_progress = py_round actual 2,
                              variance = py_round var 2,
                              on_track = track,
                              months_elapsed = elapsed,
                              months_remaining = remaining_months\<rparr>, Suc i))"

subsection \<open>Capacity\<close>

record capacity =
  base_capacity :: real
  conservative :: real
  moderate :: real
  aggressive :: real
  maximum :: real
  stress_adjusted :: bool
  overspending_impact :: bool

text \<open>
  The two intermediate values of \<^verbatim>\<open>estimate_monthly_savings_capacity\<close>: the local
  \<^verbatim>\<open>stress_multiplier\<close>, and the local \<^verbatim>\<open>base_capacity\<close> after the overspending
  adjustment.
\<close>

definition stress_multiplier :: "engine \<Rightarrow> real" where
  "stress_multiplier e =
     (let stress = get_stress_index e
      in if get_or (is_stressed stress) False
         then max 0.6 (1.0 - get_or (stress_score stress) 0 / 100 * 0.4)
         else 1.0)"

definition base_savings :: "engine \<Rightarrow> real" where
  "base_savings e =
     (let ov = get_overspending_data e;
          base = get_income e - get_expenses e
      in if get_or (is_overspending ov) False
         then base - get_or (overspending_amount ov) 0 * 0.5
         else base)"

definition estimate_monthly_savings_capacity :: "engine \<Rightarrow> capacity" where
  "estimate_monthly_savings_capacity e =
     (let base = base_savings e;
          mult = stress_multiplier e
      in \<lparr>base_capacity = py_round base 2,
          conservative = py_round (max 0 (base * 0.2 * mult)) 2,
          moderate = py_round (max 0 (base * 0.4 * mult)) 2,
          aggressive = py_round (max 0 (base * 0.7 * mult)) 2,
          maximum = py_round (max 0 (base * mult)) 2,
          stress_adjusted = (mult < 1.0),
          overspending_impact = get_or (is_overspending (get_overspending_data e)) False\<rparr>)"

subsection \<open>Texts\<close>

text \<open>
  The texts of reasons, recommendations, descriptions and insights. A fixed text is
  \<open>Plain\<close>; every f-string has a constructor of its own, carrying the values it formats
  (in the order of the template).
\<close>

datatype message =
    Plain string
  | Required_exceeds_maximum real real
  | Requires_aggressive_savings real
  | Active_overspending string
  | Behind_schedule_by real
  | Extend_date_or_reduce_by real
  | Extend_deadline_by int
  | All_goals_require real real
  | Shortfall_per_month real
  | High_priority_competing real
  | Goal_unachievable string
  | Goal_completed
  | Significantly_behind real
  | Reduce_spending_in "string list"
  | Reclaim_per_month real
  | Using_only_of_capacity real real
  | Goals_require_of_capacity real
  | Title_behind_schedule string
  | Need_more_per_month real
  | Increase_or_extend_by real
  | Title_almost_there string
  | Only_remaining real
  | Stay_focused
  | Title_needs_adjustment string
  | Overspending_could_delay real

subsection \<open>Feasibility\<close>

record feasibility =
  is_feasible :: bool
  feasibility_score :: int
  required_monthly :: real
  available_capacity :: real
  capacity_utilization :: real
  summary :: string
  reasons :: "message list"
  recommendations :: "message list"

text \<open>Truthiness of an \<^verbatim>\<open>Optional[int]\<close>, and \<^verbatim>\<open>x or 12\<close>.\<close>

fun truthy_int :: "int option \<Rightarrow> bool" where
  "truthy_int None = False"
| "truthy_int (Some n) = (n \<noteq> 0)"

definition or_12 :: "int option \<Rightarrow> int" where
  "or_12 v = (if truthy_int v then the v else 12)"

text \<open>
  Lines 388 to 396, \<^verbatim>\<open># Calculate required monthly savings\<close>:
  \<^verbatim>\<open>
  if goal.target_date and progress.months_remaining:
      if progress.months_remaining > 0:
          required_monthly = remaining_amount / progress.months_remaining
      else:
          required_monthly = remaining_amount  # Due now
  else:
      required_monthly = goal.monthly_contribution
  \<close>
\<close>

definition required_monthly_savings :: "goal \<Rightarrow> goal_progress \<Rightarrow> real" where
  "required_monthly_savings g progress =
     (let remaining_amount = target_amount g - current_amount g
      in if truthy (target_date g) \<and> truthy_int (months_remaining progress)
         then (if 0 < the (months_remaining progress)
               then remaining_amount / of_int (the (months_remaining progress))
               else remaining_amount)
         else monthly_contribution g)"

text \<open>
  The accumulators of the five checks: \<^verbatim>\<open>is_feasible\<close>, \<^verbatim>\<open>feasibility_score\<close>,
  \<^verbatim>\<open>reasons\<close>, \<^verbatim>\<open>recommendations\<close>. Each check takes them and returns them updated.
\<close>

record verdict =
  v_feasible :: bool
  v_score :: int
  v_reasons :: "message list"
  v_recommendations :: "message list"

definition check_capacity :: "capacity \<Rightarrow> goal_progress \<Rightarrow> real \<Rightarrow> verdict \<Rightarrow> verdict" where
  "check_capacity cap progress required v =
     (if maximum cap < required
      then \<lparr>v_feasible = False, v_score = v_score v - 50,
            v_reasons = v_reasons v @ [Required_exceeds_maximum required (maximum cap)],
            v_recommendations = v_recommendations v @
              [Extend_date_or_reduce_by
                 ((required - maximum cap) * of_int (or_12 (months_remaining progress)))]\<rparr>
      else if aggressive cap < required
      then v\<lparr>v_score := v_score v - 20,
             v_reasons := v_reasons v @ [Requires_aggressive_savings required],
             v_recommendations := v_recommendations v @
               [Plain ''This goal is achievable but requires significant financial discipline'']\<rparr>
      else if moderate cap < required
      then v\<lparr>v_score := v_score v - 10,
             v_reasons := v_reasons v @
               [Plain ''Goal requires above-moderate savings commitment'']\<rparr>
      else v)"

definition check_stress :: "engine \<Rightarrow> verdict \<Rightarrow> verdict" where
  "check_stress e v =
     (if get_or (is_stressed (get_stress_index e)) False
      then v\<lparr>v_score := v_score v - 15,
             v_reasons := v_reasons v @
               [Plain ''Current financial stress may impact savings ability''],
             v_recommendations := v_recommendations v @
               [Plain ''Focus on stress reduction and expense optimization first'']\<rparr>
      else v)"

definition check_overspending :: "engine \<Rightarrow> verdict \<Rightarrow> verdict" where
  "check_overspending e v =
     (if get_or (is_overspending (get_overspending_data e)) False
      then v\<lparr>v_score := v_score v - 15,
             v_reasons := v_reasons v @
               [Active_overspending (get_or (severity (get_overspending_data e)) ''low'')],
             v_recommendations := v_recommendations v @
               [Plain ''Address overspending in discretionary categories before increasing goal contributions'']\<rparr>
      else v)"

definition check_history :: "goal_progress \<Rightarrow> verdict \<Rightarrow> verdict" where
  "check_history progress v =
     (if variance progress < - 20
      then v\<lparr>v_score := v_score v - 20,
             v_reasons := v_reasons v @ [Behind_schedule_by \<bar>variance progress\<bar>],
             v_recommendations := v_recommendations v @
               [Plain ''Review and adjust monthly contribution or extend timeline'']\<rparr>
      else v)"

text \<open>
  Check 5 fires under \<open>timeline_unrealistic\<close>; its recommendation divides by the
  moderate band.
\<close>

definition timeline_unrealistic :: "capacity \<Rightarrow> goal \<Rightarrow> goal_progress \<Rightarrow> bool" where
  "timeline_unrealistic cap g progress =
     (truthy (target_date g) \<and> months_remaining progress \<noteq> None \<and>
      the (months_remaining progress) < 3 \<and>
      maximum cap * 3 < target_amount g - current_amount g)"

definition check_timeline ::
  "capacity \<Rightarrow> goal \<Rightarrow> goal_progress \<Rightarrow> verdict \<Rightarrow> error + verdict" where
  "check_timeline cap g progress v =
     (if timeline_unrealistic cap g progress
      then (case py_div (target_amount g - current_amount g) (moderate cap) of
              Inl err \<Rightarrow> Inl err
            | Inr q \<Rightarrow>
                Inr \<lparr>v_feasible = False, v_score = v_score v - 30,
                     v_reasons = v_reasons v @
                       [Plain ''Insufficient time remaining to reach goal''],
                     v_recommendations = v_recommendations v @
                       [Extend_deadline_by (py_int q - the (months_remaining progress))]\<rparr>)
      else Inr v)"

definition summary_of :: "int \<Rightarrow> string" where
  "summary_of score =
     (if 80 \<le> score then ''Highly feasible - goal is well within reach''
      else if 60 \<le> score then ''Feasible with discipline - stay focused on contributions''
      else if 40 \<le> score then ''Challenging but possible - requires optimization''
      else ''Unrealistic under current conditions - adjustment needed'')"

definition evaluate_goal_feasibility ::
  "engine \<Rightarrow> goal \<Rightarrow> clock \<Rightarrow> nat \<Rightarrow> error + feasibility \<times> nat" where
  "evaluate_goal_feasibility e g clk i =
     (let cap = estimate_monthly_savings_capacity e
      in case calculate_goal_progress g clk i of
           Inl err \<Rightarrow> Inl err
         | Inr (progress, j) \<Rightarrow>
             let required = required_monthly_savings g progress;
                 v0 = \<lparr>v_feasible = True, v_score = 100, v_reasons = [],
                       v_recommendations = []\<rparr>;
                 v4 = check_history progress
                        (check_overspending e (check_stress e
                           (check_capacity cap progress required v0)))
             in case check_timeline cap g progress v4 of
                  Inl err \<Rightarrow> Inl err
                | Inr v5 \<Rightarrow>
                    let score = max 0 (v_score v5)
                    in Inr (\<lparr>is_feasible = v_feasible v5,
                              feasibility_score = score,
                              required_monthly = py_round required 2,
                              available_capacity = moderate cap,
                              capacity_utilization =
                                py_round (if 0 < maximum cap
                                          then required / maximum cap * 100 else 0) 2,
                              summary = summary_of score,
                              reasons = v_reasons v5,
                              recommendations = v_recommendations v5\<rparr>, j))"

subsection \<open>Goal store adapter\<close>

text \<open>
  \<^verbatim>\<open>load_state\<close> is a stub in the source: it sets \<^verbatim>\<open>self.state\<close> to a dict whose
  sections are all present and empty, and cannot raise.
\<close>

definition load_state :: "engine \<Rightarrow> engine" where
  "load_state e =
     e\<lparr>state := \<lparr>income = Some \<lparr>monthly_income = None\<rparr>,
                   expenses = Some \<lparr>monthly_total = None\<rparr>,
                   savings_goals = Some [],
                   overspending = Some \<lparr>is_overspending = None, overspending_amount = None,
                                        affected_categories = None, severity = None\<rparr>,
                   stress_index = Some \<lparr>stress_score = None, stress_level = None,
                                        is_stressed = None\<rparr>\<rparr>\<rparr>"

text \<open>
  The constructor call of one record. Python evaluates the keyword arguments in order:
  the three \<^verbatim>\<open>float(...)\<close> conversions come before the two clock readings, which are
  made for every record (the default of \<^verbatim>\<open>.get\<close> is evaluated even when the key is there).
\<close>

definition make_goal :: "string \<Rightarrow> raw_goal \<Rightarrow> clock \<Rightarrow> nat \<Rightarrow> error + goal \<times> nat" where
  "make_goal gid info clk i =
     (case py_float (get_or (raw_target_amount info) (Number 0)) of
        Inl err \<Rightarrow> Inl err
      | Inr target \<Rightarrow>
     (case py_float (get_or (raw_current_amount info) (Number 0)) of
        Inl err \<Rightarrow> Inl err
      | Inr current \<Rightarrow>
     (case py_float (get_or (raw_monthly_contribution info) (Number 0)) of
        Inl err \<Rightarrow> Inl err
      | Inr contribution \<Rightarrow>
          Inr (\<lparr>goal_id = gid,
                name = get_or (raw_name info) ''Unnamed Goal'',
                goal_type = get_or (raw_type info) ''custom'',
                target_amount = target,
                current_amount = current,
                target_date = raw_target_date info,
                priority = get_or (raw_priority info) ''medium'',
                monthly_contribution = contribution,
                created_date = get_or (raw_created_date info) (Iso (clk i)),
                last_updated = get_or (raw_last_updated info) (Iso (clk (Suc i))),
                description = raw_description info\<rparr>, i + 2))))"

text \<open>
  The loop of \<^verbatim>\<open>get_savings_goals\<close> over \<^verbatim>\<open>goals_data.items()\<close>, filling
  \<^verbatim>\<open>self.goals\<close>. It stops at the first exception and hands back what it had stored.
\<close>

fun load_goals ::
  "(string \<times> raw_goal) list \<Rightarrow> clock \<Rightarrow> (string \<times> goal) list \<Rightarrow> nat \<Rightarrow>
   error option \<times> (string \<times> goal) list \<times> nat" where
  "load_goals [] clk acc i = (None, acc, i)"
| "load_goals ((gid, info) # rest) clk acc i =
     (case make_goal gid info clk i of
        Inl err \<Rightarrow> (Some err, acc, i)
      | Inr (g, j) \<Rightarrow> load_goals rest clk (AList.update gid g acc) j)"

text \<open>
  \<^verbatim>\<open>get_savings_goals\<close>: the dict returned, the engine with \<^verbatim>\<open>self.goals\<close> as the loop
  left it, and the count of clock readings. The \<^verbatim>\<open>except Exception\<close> clause returns an
  empty dict.
\<close>

definition get_savings_goals ::
  "engine \<Rightarrow> clock \<Rightarrow> nat \<Rightarrow> (string \<times> goal) list \<times> engine \<times> nat" where
  "get_savings_goals e clk i =
     (case load_goals (get_or (savings_goals (state e)) []) clk [] i of
        (None, gs, j) \<Rightarrow> (gs, e\<lparr>goals := gs\<rparr>, j)
      | (Some err, gs, j) \<Rightarrow> ([], e\<lparr>goals := gs\<rparr>, j))"

subsection \<open>Conflicts\<close>

datatype affected = Goal_ids "string list" | Short_and_long "string list" "string list"

record conflict =
  conflict_type :: string
  conflict_severity :: string
  conflict_description :: message
  conflict_impact :: "message option"
  conflict_affected_goals :: affected
  conflict_feasibility_score :: "int option"
  conflict_recommendation :: message

text \<open>
  Conflict 3, the loop that sorts the goals with a target date into short-term and
  long-term ones. The year and the month of "now" come from two clock readings.
\<close>

fun split_by_term ::
  "goal list \<Rightarrow> clock \<Rightarrow> nat \<Rightarrow> error + (goal list \<times> goal list) \<times> nat" where
  "split_by_term [] clk i = Inr (([], []), i)"
| "split_by_term (g # gs) clk i =
     (if truthy (target_date g)
      then (case fromisoformat (the (target_date g)) of
              Inl err \<Rightarrow> Inl err
            | Inr target \<Rightarrow>
                let months_away = (year target - year (clk i)) * 12 +
                                  (month target - month (clk (Suc i)))
                in (case split_by_term gs clk (i + 2) of
                      Inl err \<Rightarrow> Inl err
                    | Inr ((short, long), j) \<Rightarrow>
                        if months_away \<le> 12 then Inr ((g # short, long), j)
                        else Inr ((short, g # long), j)))
      else split_by_term gs clk i)"

text \<open>Conflict 4, the loop over the goals that are not feasible.\<close>

fun lifestyle_conflicts ::
  "engine \<Rightarrow> goal list \<Rightarrow> clock \<Rightarrow> nat \<Rightarrow> error + conflict list \<times> nat" where
  "lifestyle_conflicts e [] clk i = Inr ([], i)"
| "lifestyle_conflicts e (g # gs) clk i =
     (case evaluate_goal_feasibility e g clk i of
        Inl err \<Rightarrow> Inl err
      | Inr (f, j) \<Rightarrow>
          (case lifestyle_conflicts e gs clk j of
             Inl err \<Rightarrow> Inl err
           | Inr (cs, k) \<Rightarrow>
               Inr ((if \<not> is_feasible f
                     then [\<lparr>conflict_type = ''lifestyle_conflict'',
                             conflict_severity = ''high'',
                             conflict_description = Goal_unachievable (name g),
                             conflict_impact = None,
                             conflict_affected_goals = Goal_ids [goal_id g],
                             conflict_feasibility_score = Some (feasibility_score f),
                             conflict_recommendation =
                               (if recommendations f \<noteq> [] then hd (recommendations f)
                                else Plain ''Review goal parameters'')\<rparr>]
                     else []) @ cs, k)))"

definition detect_goal_conflicts ::
  "engine \<Rightarrow> clock \<Rightarrow> nat \<Rightarrow> error + conflict list \<times> nat" where
  "detect_goal_conflicts e clk i =
     (if goals e = [] then Inr ([], i)
      else
        let cap = estimate_monthly_savings_capacity e;
            gs = map snd (goals e);
            total_required = sum_list (map monthly_contribution gs);
            overload =
              (if maximum cap < total_required
               then [\<lparr>conflict_type = ''capacity_overload'',
                       conflict_severity = ''high'',
                       conflict_description = All_goals_require total_required (maximum cap),
                       conflict_impact = Some (Shortfall_per_month (total_required - maximum cap)),
                       conflict_affected_goals = Goal_ids (map fst (goals e)),
                       conflict_feasibility_score = None,
                       conflict_recommendation = Plain ''Prioritize goals or extend timelines''\<rparr>]
               else []);
            high_priority_goals = filter (\<lambda>g. priority g = ''high'') gs;
            total_high_priority = sum_list (map monthly_contribution high_priority_goals);
            clash =
              (if 1 < length high_priority_goals \<and> aggressive cap < total_high_priority
               then [\<lparr>conflict_type = ''priority_conflict'',
                       conflict_severity = ''medium'',
                       conflict_description = High_priority_competing total_high_priority,
                       conflict_impact = None,
                       conflict_affected_goals = Goal_ids (map goal_id high_priority_goals),
                       conflict_feasibility_score = None,
                       conflict_recommendation =
                         Plain ''Re-evaluate goal priorities or adjust contribution amounts''\<rparr>]
               else [])
        in case split_by_term gs clk i of
             Inl err \<Rightarrow> Inl err
           | Inr ((short, long), j) \<Rightarrow>
               let temporal =
                     (if short \<noteq> [] \<and> long \<noteq> [] \<and>
                         moderate cap < sum_list (map monthly_contribution short)
                      then [\<lparr>conflict_type = ''temporal_conflict'',
                              conflict_severity = ''medium'',
                              conflict_description =
                                Plain ''Short-term goal focus may compromise long-term financial stability'',
                              conflict_impact = None,
                              conflict_affected_goals =
                                Short_and_long (map goal_id short) (map goal_id long),
                              conflict_feasibility_score = None,
                              conflict_recommendation =
                                Plain ''Ensure emergency fund and retirement goals maintain minimum contributions''\<rparr>]
                      else [])
               in (case lifestyle_conflicts e gs clk j of
                     Inl err \<Rightarrow> Inl err
                   | Inr (unachievable, k) \<Rightarrow>
                       Inr (overload @ clash @ temporal @ unachievable, k)))"

subsection \<open>Health status\<close>

datatype goal_health = ON_TRACK | AT_RISK | OFF_TRACK | UNREALISTIC | COMPLETED

definition assign_goal_health_status ::
  "engine \<Rightarrow> goal \<Rightarrow> clock \<Rightarrow> nat \<Rightarrow> error + (goal_health \<times> message) \<times> nat" where
  "assign_goal_health_status e g clk i =
     (case calculate_goal_progress g clk i of
        Inl err \<Rightarrow> Inl err
      | Inr (progress, j) \<Rightarrow>
          (case evaluate_goal_feasibility e g clk j of
             Inl err \<Rightarrow> Inl err
           | Inr (f, k) \<Rightarrow>
               Inr (if 100 \<le> completion_percentage progress
                    then (COMPLETED, Goal_completed)
                    else if \<not> is_feasible f \<or> feasibility_score f < 30
                    then (UNREALISTIC, Plain (summary f))
                    else if on_track progress \<and> - 5 \<le> variance progress
                    then (if 70 \<le> feasibility_score f
                          then (ON_TRACK, Plain ''Goal is progressing as planned'')
                          else (AT_RISK, Plain ''On track but capacity concerns exist''))
                    else if - 20 \<le> variance progress
                    then (AT_RISK, Behind_schedule_by \<bar>variance progress\<bar>)
                    else (OFF_TRACK, Significantly_behind (variance progress)), k)))"

subsection \<open>Stress and overspending\<close>

record frozen_goal =
  frozen_goal_id :: string
  frozen_goal_name :: string
  frozen_reason :: string

record reduced_contribution =
  reduced_goal_id :: string
  reduced_goal_name :: string
  current_contribution :: real
  recommended_contribution :: real
  reduced_reason :: string

record stress_adjustments =
  stress_detected :: bool
  adj_stress_level :: string
  adj_recommendations :: "string list"
  frozen_goals :: "frozen_goal list"
  reduced_contributions :: "reduced_contribution list"

definition adjust_goals_using_stress :: "engine \<Rightarrow> stress_adjustments" where
  "adjust_goals_using_stress e =
     (let stress = get_stress_index e;
          gs = map snd (goals e);
          adjustments = \<lparr>stress_detected = get_or (is_stressed stress) False,
                         adj_stress_level = get_or (stress_level stress) ''low'',
                         adj_recommendations = [],
                         frozen_goals = [],
                         reduced_contributions = []\<rparr>
      in if \<not> get_or (is_stressed stress) False
         then adjustments\<lparr>adj_recommendations :=
                [''No stress detected - maintain current goal strategy'']\<rparr>
         else if 70 < get_or (stress_score stress) 0
         then adjustments
                \<lparr>frozen_goals :=
                   map (\<lambda>g. \<lparr>frozen_goal_id = goal_id g, frozen_goal_name = name g,
                              frozen_reason =
                                ''Low priority goal frozen due to high financial stress''\<rparr>)
                       (filter (\<lambda>g. priority g = ''low'') gs),
                 adj_recommendations :=
                   [''Focus only on essential goals (emergency fund, critical deadlines)'',
                    ''Temporarily pause low-priority goals until stress reduces'']\<rparr>
         else if 40 < get_or (stress_score stress) 0
         then adjustments
                \<lparr>reduced_contributions :=
                   map (\<lambda>g. \<lparr>reduced_goal_id = goal_id g, reduced_goal_name = name g,
                              current_contribution = monthly_contribution g,
                              recommended_contribution =
                                py_round (monthly_contribution g * 0.5) 2,
                              reduced_reason =
                                ''Reduced contribution due to moderate financial stress''\<rparr>)
                       (filter (\<lambda>g. priority g = ''low'' \<or> priority g = ''medium'') gs),
                 adj_recommendations :=
                   [''Consider reducing non-essential goal contributions by 30-50%'',
                    ''Prioritize financial stability and stress reduction'']\<rparr>
         else adjustments\<lparr>adj_recommendations :=
                [''Monitor stress levels and adjust goals if stress increases'']\<rparr>)"

record delay_entry =
  delay_goal_name :: string
  entry_delay_months :: int
  impact_severity :: string

record overspending_report =
  overspending_detected :: bool
  impact_level :: string
  impact_affected_goals :: "string list"
  estimated_delay :: "(string \<times> delay_entry) list"
  recovery_actions :: "message list"

text \<open>
  The loop of \<^verbatim>\<open>integrate_overspending_impact\<close>: the progress of every goal is computed
  (and may raise), goals with a positive monthly contribution get a delay entry.
\<close>

fun delay_entries ::
  "real \<Rightarrow> goal list \<Rightarrow> clock \<Rightarrow> nat \<Rightarrow>
   string list \<Rightarrow> (string \<times> delay_entry) list \<Rightarrow>
   error + (string list \<times> (string \<times> delay_entry) list) \<times> nat" where
  "delay_entries amount [] clk i ids acc = Inr ((ids, acc), i)"
| "delay_entries amount (g # gs) clk i ids acc =
     (case calculate_goal_progress g clk i of
        Inl err \<Rightarrow> Inl err
      | Inr (progress, j) \<Rightarrow>
          let remaining = target_amount g - current_amount g
          in if 0 < monthly_contribution g
             then
               let reduced = max 0 (monthly_contribution g - amount * 0.3);
                   delay_months =
                     (if 0 < reduced
                      then py_int (remaining / reduced - remaining / monthly_contribution g)
                      else 999)
               in delay_entries amount gs clk j (ids @ [goal_id g])
                    (AList.update (goal_id g)
                       \<lparr>delay_goal_name = name g, entry_delay_months = delay_months,
                        impact_severity =
                          (if 6 < delay_months then ''high''
                           else if 3 < delay_months then ''medium'' else ''low'')\<rparr> acc)
             else delay_entries amount gs clk j ids acc)"

definition integrate_overspending_impact ::
  "engine \<Rightarrow> clock \<Rightarrow> nat \<Rightarrow> error + overspending_report \<times> nat" where
  "integrate_overspending_impact e clk i =
     (let ov = get_overspending_data e;
          impact = \<lparr>overspending_detected = get_or (is_overspending ov) False,
                    impact_level = get_or (severity ov) ''low'',
                    impact_affected_goals = [],
                    estimated_delay = [],
                    recovery_actions = []\<rparr>
      in if \<not> get_or (is_overspending ov) False then Inr (impact, i)
         else
           let amount = get_or (overspending_amount ov) 0;
               categories = get_or (affected_categories ov) []
           in case delay_entries amount (map snd (goals e)) clk i [] [] of
                Inl err \<Rightarrow> Inl err
              | Inr ((ids, delays), j) \<Rightarrow>
                  Inr (impact
                         \<lparr>impact_affected_goals := ids,
                          estimated_delay := delays,
                          recovery_actions :=
                            (if categories \<noteq> [] then [Reduce_spending_in (take 3 categories)]
                             else []) @
                            [Reclaim_per_month amount] @
                            (if severity ov = Some ''high''
                             then [Plain ''Critical: Review and freeze non-essential subscriptions and expenses'']
                             else [])\<rparr>, j))"

subsection \<open>Prediction\<close>

text \<open>
  \<^verbatim>\<open>timedelta(days=d)\<close> as a number of microseconds, rounded to the nearest one; it raises
  \<^verbatim>\<open>OverflowError\<close> beyond 999999999 days. \<^verbatim>\<open>now + delta\<close> raises it when the sum
  leaves the years 1 to 9999 (3652059 days). \<^verbatim>\<open>.days\<close> of a difference is its floor in
  days.
\<close>

definition micros_per_day :: int where
  "micros_per_day = 86400000000"

definition timedelta_days :: "real \<Rightarrow> error + int" where
  "timedelta_days d =
     (let us = round_half_even (d * of_int micros_per_day)
      in if 999999999 < \<bar>us div micros_per_day\<bar> then Inl OverflowError else Inr us)"

definition datetime_add :: "datetime \<Rightarrow> int \<Rightarrow> error + int" where
  "datetime_add t us =
     (let r = micros t + us
      in if 0 \<le> r \<and> r < 3652059 * micros_per_day then Inr r else Inl OverflowError)"

definition days_between :: "int \<Rightarrow> int \<Rightarrow> int" where
  "days_between later earlier = (later - earlier) div micros_per_day"

text \<open>
  The prediction dict. \<^verbatim>\<open>predicted_completion_date\<close> is the ISO text of a datetime in
  the source; the model keeps the instant the text denotes.
\<close>

record prediction =
  pred_goal_id :: string
  pred_goal_name :: string
  predicted_completion_date :: "int option"
  months_to_completion :: real
  success_probability :: real
  predicted_monthly_rate :: real
  target_monthly_rate :: real
  confidence :: string

definition adjustment_factor :: "engine \<Rightarrow> real" where
  "adjustment_factor e =
     (if get_or (is_overspending (get_overspending_data e)) False then 0.85 else 1.0) *
     (if get_or (is_stressed (get_stress_index e)) False then 0.90 else 1.0)"

definition predict_goal_completion ::
  "engine \<Rightarrow> goal \<Rightarrow> clock \<Rightarrow> nat \<Rightarrow> error + prediction \<times> nat" where
  "predict_goal_completion e g clk i =
     (case calculate_goal_progress g clk i of
        Inl err \<Rightarrow> Inl err
      | Inr (progress, j) \<Rightarrow>
          let remaining = target_amount g - current_amount g;
              elapsed = months_elapsed progress;
              actual_monthly_rate =
                (if 0 < elapsed then current_amount g / of_int elapsed
                 else monthly_contribution g);
              rate = actual_monthly_rate * adjustment_factor e;
              result = (\<lambda>months date probability.
                 \<lparr>pred_goal_id = goal_id g,
                  pred_goal_name = name g,
                  predicted_completion_date = date,
                  months_to_completion = py_round months 1,
                  success_probability = py_round probability 2,
                  predicted_monthly_rate = py_round rate 2,
                  target_monthly_rate = monthly_contribution g,
                  confidence = (if 3 \<le> elapsed then ''high''
                                else if 1 \<le> elapsed then ''medium'' else ''low'')\<rparr>)
          in if 0 < rate
             then
               let months = remaining / rate;
                   now = clk j
               in (case timedelta_days (months * 30) of
                     Inl err \<Rightarrow> Inl err
                   | Inr delta \<Rightarrow>
                  (case datetime_add now delta of
                     Inl err \<Rightarrow> Inl err
                   | Inr predicted \<Rightarrow>
                       if truthy (target_date g)
                       then (case fromisoformat (the (target_date g)) of
                               Inl err \<Rightarrow> Inl err
                             | Inr target \<Rightarrow>
                                 Inr (result months (Some predicted)
                                        (if predicted \<le> micros target
                                         then min 0.95 (0.7 + variance progress / 100 * 0.25)
                                         else max 0.1
                                                (0.7 - of_int (days_between predicted (micros target))
                                                         / 365 * 0.3)),
                                      Suc j))
                       else Inr (result months (Some predicted)
                                   (if - 10 \<le> variance progress then 0.8 else 0.6), Suc j)))
             else Inr (result 999 None 0.1, j))"

record delay_info =
  delay_goal_id :: string
  has_delay :: bool
  delay_months :: real
  delay_reasons :: "string list"
  risk_level :: string

definition estimate_goal_delay ::
  "engine \<Rightarrow> goal \<Rightarrow> clock \<Rightarrow> nat \<Rightarrow> error + delay_info \<times> nat" where
  "estimate_goal_delay e g clk i =
     (case predict_goal_completion e g clk i of
        Inl err \<Rightarrow> Inl err
      | Inr (pred, j) \<Rightarrow>
          let info = \<lparr>delay_goal_id = goal_id g, has_delay = False, delay_months = 0,
                      delay_reasons = [], risk_level = ''low''\<rparr>
          in if \<not> truthy (target_date g) then Inr (info, j)
             else (case fromisoformat (the (target_date g)) of
                     Inl err \<Rightarrow> Inl err
                   | Inr target \<Rightarrow>
                  (case predicted_completion_date pred of
                     None \<Rightarrow>
                       Inr (info\<lparr>has_delay := True, delay_months := 999,
                                 risk_level := ''critical'',
                                 delay_reasons :=
                                   [''Goal appears unachievable at current rate'']\<rparr>, j)
                   | Some predicted \<Rightarrow>
                       if micros target < predicted
                       then
                         let months = of_int (days_between predicted (micros target)) / 30
                         in (case calculate_goal_progress g clk j of
                               Inl err \<Rightarrow> Inl err
                             | Inr (progress, k) \<Rightarrow>
                            (case evaluate_goal_feasibility e g clk k of
                               Inl err \<Rightarrow> Inl err
                             | Inr (f, l) \<Rightarrow>
                                 Inr (info
                                   \<lparr>has_delay := True,
                                    delay_months := py_round months 1,
                                    risk_level :=
                                      (if 6 < months then ''high''
                                       else if 3 < months then ''medium'' else ''low''),
                                    delay_reasons :=
                                      (if variance progress < - 15
                                       then [''Significantly behind schedule''] else []) @
                                      (if get_or (is_overspending (get_overspending_data e)) False
                                       then [''Overspending reducing available savings''] else []) @
                                      (if get_or (is_stressed (get_stress_index e)) False
                                       then [''Financial stress impacting contributions''] else []) @
                                      (if 80 < capacity_utilization f
                                       then [''Limited savings capacity''] else [])\<rparr>, l)))
                       else Inr (info, j))))"

subsection \<open>Insights\<close>

record insight =
  insight_type :: string
  insight_priority :: string
  insight_goal_id :: "string option"
  insight_title :: message
  insight_message :: message
  insight_action :: message

text \<open>Insight 2, the loop over the goals.\<close>

fun goal_insights ::
  "engine \<Rightarrow> goal list \<Rightarrow> clock \<Rightarrow> nat \<Rightarrow> error + insight list \<times> nat" where
  "goal_insights e [] clk i = Inr ([], i)"
| "goal_insights e (g # gs) clk i =
     (case calculate_goal_progress g clk i of
        Inl err \<Rightarrow> Inl err
      | Inr (progress, j) \<Rightarrow>
     (case evaluate_goal_feasibility e g clk j of
        Inl err \<Rightarrow> Inl err
      | Inr (f, k) \<Rightarrow>
     (case predict_goal_completion e g clk k of
        Inl err \<Rightarrow> Inl err
      | Inr (pred, l) \<Rightarrow>
          let schedule =
                (if variance progress < - 20
                 then [\<lparr>insight_type = ''behind_schedule'', insight_priority = ''high'',
                         insight_goal_id = Some (goal_id g),
                         insight_title = Title_behind_schedule (name g),
                         insight_message =
                           Need_more_per_month
                             (target_amount g * \<bar>variance progress\<bar> / 100 /
                              of_int (max 1 (or_12 (months_remaining progress)))),
                         insight_action = Increase_or_extend_by (\<bar>variance progress\<bar> / 10)\<rparr>]
                 else if 80 < completion_percentage progress \<and>
                         completion_percentage progress < 100
                 then [\<lparr>insight_type = ''near_completion'', insight_priority = ''low'',
                         insight_goal_id = Some (goal_id g),
                         insight_title = Title_almost_there (name g),
                         insight_message = Only_remaining (target_amount g - current_amount g),
                         insight_action = Stay_focused\<rparr>]
                 else []);
              unrealistic =
                (if \<not> is_feasible f
                 then [\<lparr>insight_type = ''unrealistic_goal'', insight_priority = ''critical'',
                         insight_goal_id = Some (goal_id g),
                         insight_title = Title_needs_adjustment (name g),
                         insight_message = Plain (summary f),
                         insight_action =
                           (if recommendations f \<noteq> [] then hd (recommendations f)
                            else Plain ''Review goal parameters'')\<rparr>]
                 else [])
          in (case goal_insights e gs clk l of
                Inl err \<Rightarrow> Inl err
              | Inr (rest, m) \<Rightarrow> Inr (schedule @ unrealistic @ rest, m)))))"

definition generate_savings_insights ::
  "engine \<Rightarrow> clock \<Rightarrow> nat \<Rightarrow> error + insight list \<times> nat" where
  "generate_savings_insights e clk i =
     (if goals e = []
      then Inr ([\<lparr>insight_type = ''no_goals'', insight_priority = ''high'',
                   insight_goal_id = None,
                   insight_title = Plain ''No Savings Goals Set'',
                   insight_message =
                     Plain ''Start building your financial future by creating your first savings goal'',
                   insight_action = Plain ''Create a goal''\<rparr>], i)
      else
        let cap = estimate_monthly_savings_capacity e;
            gs = map snd (goals e);
            total_contributions = sum_list (map monthly_contribution gs);
            utilization = (if 0 < maximum cap then total_contributions / maximum cap * 100 else 0);
            usage =
              (if utilization < 50
               then [\<lparr>insight_type = ''underutilized_capacity'', insight_priority = ''medium'',
                       insight_goal_id = None,
                       insight_title = Plain ''Opportunity to Save More'',
                       insight_message =
                         Using_only_of_capacity utilization (maximum cap - total_contributions),
                       insight_action =
                         Plain ''Consider increasing goal contributions or adding new goals''\<rparr>]
               else if 90 < utilization
               then [\<lparr>insight_type = ''overutilized_capacity'', insight_priority = ''high'',
                       insight_goal_id = None,
                       insight_title = Plain ''Savings Capacity Strained'',
                       insight_message = Goals_require_of_capacity utilization,
                       insight_action = Plain ''Review goal priorities or extend timelines''\<rparr>]
               else [])
        in case goal_insights e gs clk i of
             Inl err \<Rightarrow> Inl err
           | Inr (per_goal, j) \<Rightarrow>
          (case integrate_overspending_impact e clk j of
             Inl err \<Rightarrow> Inl err
           | Inr (impact, k) \<Rightarrow>
               let total_delay = sum_list (map (entry_delay_months \<circ> snd) (estimated_delay impact));
                   delaying =
                     (if overspending_detected impact \<and> 0 < total_delay
                      then [\<lparr>insight_type = ''overspending_impact'', insight_priority = ''high'',
                              insight_goal_id = None,
                              insight_title = Plain ''Overspending Delaying Goals'',
                              insight_message = Overspending_could_delay (of_int total_delay),
                              insight_action =
                                (if recovery_actions impact \<noteq> [] then hd (recovery_actions impact)
                                 else Plain ''Reduce discretionary spending'')\<rparr>]
                      else []);
                   adjustments = adjust_goals_using_stress e;
                   stress_warning =
                     (if stress_detected adjustments \<and> adj_recommendations adjustments \<noteq> []
                      then [\<lparr>insight_type = ''stress_warning'', insight_priority = ''high'',
                              insight_goal_id = None,
                              insight_title = Plain ''Financial Stress Detected'',
                              insight_message = Plain (hd (adj_recommendations adjustments)),
                              insight_action =
                                Plain ''Consider pausing or reducing low-priority goals temporarily''\<rparr>]
                      else [])
               in (case detect_goal_conflicts e clk k of
                     Inl err \<Rightarrow> Inl err
                   | Inr (conflicts, l) \<Rightarrow>
                       let high = filter (\<lambda>c. conflict_severity c = ''high'') conflicts
                       in Inr (usage @ per_goal @ delaying @ stress_warning @
                               (if high \<noteq> []
                                then [\<lparr>insight_type = ''goal_conflict'',
                                        insight_priority = ''critical'',
                                        insight_goal_id = None,
                                        insight_title = Plain ''Goal Conflicts Detected'',
                                        insight_message = conflict_description (hd high),
                                        insight_action = conflict_recommendation (hd high)\<rparr>]
                                else []), l))))"

subsection \<open>Public API\<close>

record health_distribution =
  n_on_track :: nat
  n_at_risk :: nat
  n_off_track :: nat
  n_unrealistic :: nat
  n_completed :: nat

text \<open>\<^verbatim>\<open>goal_health_summary[health_status.value] += 1\<close>\<close>

fun count_health :: "goal_health \<Rightarrow> health_distribution \<Rightarrow> health_distribution" where
  "count_health ON_TRACK h = h\<lparr>n_on_track := Suc (n_on_track h)\<rparr>"
| "count_health AT_RISK h = h\<lparr>n_at_risk := Suc (n_at_risk h)\<rparr>"
| "count_health OFF_TRACK h = h\<lparr>n_off_track := Suc (n_off_track h)\<rparr>"
| "count_health UNREALISTIC h = h\<lparr>n_unrealistic := Suc (n_unrealistic h)\<rparr>"
| "count_health COMPLETED h = h\<lparr>n_completed := Suc (n_completed h)\<rparr>"

record goal_analysis =
  goal_info :: goal
  analysis_progress :: goal_progress
  analysis_feasibility :: feasibility
  health_status :: goal_health
  health_explanation :: message
  analysis_prediction :: prediction
  delay_estimate :: delay_info

text \<open>
  The loop \<^verbatim>\<open>for goal_id, goal in self.goals.items()\<close> of the report, with its three
  accumulators: \<^verbatim>\<open>goals_analysis\<close>, \<^verbatim>\<open>goal_health_summary\<close>, \<^verbatim>\<open>predictions\<close>.
\<close>

fun analyse_goals ::
  "engine \<Rightarrow> (string \<times> goal) list \<Rightarrow> clock \<Rightarrow> nat \<Rightarrow>
   (string \<times> goal_analysis) list \<Rightarrow> health_distribution \<Rightarrow> (string \<times> prediction) list \<Rightarrow>
   error + ((string \<times> goal_analysis) list \<times> health_distribution \<times>
            (string \<times> prediction) list) \<times> nat" where
  "analyse_goals e [] clk i analysis health preds = Inr ((analysis, health, preds), i)"
| "analyse_goals e ((gid, g) # rest) clk i analysis health preds =
     (case calculate_goal_progress g clk i of
        Inl err \<Rightarrow> Inl err
      | Inr (progress, j) \<Rightarrow>
     (case evaluate_goal_feasibility e g clk j of
        Inl err \<Rightarrow> Inl err
      | Inr (f, k) \<Rightarrow>
     (case assign_goal_health_status e g clk k of
        Inl err \<Rightarrow> Inl err
      | Inr ((status, explanation), l) \<Rightarrow>
     (case predict_goal_completion e g clk l of
        Inl err \<Rightarrow> Inl err
      | Inr (pred, m) \<Rightarrow>
     (case estimate_goal_delay e g clk m of
        Inl err \<Rightarrow> Inl err
      | Inr (delay, n) \<Rightarrow>
          analyse_goals e rest clk n
            (AList.update gid
               \<lparr>goal_info = g, analysis_progress = progress, analysis_feasibility = f,
                health_status = status, health_explanation = explanation,
                analysis_prediction = pred, delay_estimate = delay\<rparr> analysis)
            (count_health status health)
            (AList.update gid pred preds))))))"

record report_summary =
  total_goals :: nat
  total_target_amount :: real
  total_saved :: real
  total_remaining :: real
  overall_progress_percentage :: real
  summary_health_distribution :: health_distribution
  goals_on_track :: nat
  goals_needing_attention :: nat

record report =
  report_summary :: report_summary
  report_goals :: "(string \<times> goal_analysis) list"
  report_goal_health :: health_distribution
  report_conflicts :: "conflict list"
  report_predictions :: "(string \<times> prediction) list"
  report_insights :: "insight list"
  savings_capacity :: capacity
  report_stress_adjustments :: stress_adjustments
  report_overspending_impact :: overspending_report
  report_generated :: datetime
  engine_version :: string

text \<open>
  \<^verbatim>\<open>get_savings_goals_report\<close> in two parts. \<open>load_all\<close> is its first six calls
  (\<^verbatim>\<open># Load all data\<close>); of these only \<^verbatim>\<open>load_state\<close> and \<^verbatim>\<open>get_savings_goals\<close> change
  what the engine model holds. \<open>compile_report\<close> is the rest of the method, from
  \<^verbatim>\<open># Generate summary statistics\<close> on; it works on the engine as loaded.
\<close>

definition load_all :: "engine \<Rightarrow> clock \<Rightarrow> nat \<Rightarrow> engine \<times> nat" where
  "load_all e clk i =
     (case get_savings_goals (load_state e) clk i of (returned, e', j) \<Rightarrow> (e', j))"

definition compile_report :: "engine \<Rightarrow> clock \<Rightarrow> nat \<Rightarrow> error + report \<times> nat" where
  "compile_report e clk i =
     (let gs = map snd (goals e);
          total_target = sum_list (map target_amount gs);
          saved = sum_list (map current_amount gs);
          overall_progress = (if 0 < total_target then saved / total_target * 100 else 0)
      in case analyse_goals e (goals e) clk i []
                \<lparr>n_on_track = 0, n_at_risk = 0, n_off_track = 0, n_unrealistic = 0,
                 n_completed = 0\<rparr> [] of
           Inl err \<Rightarrow> Inl err
         | Inr ((analysis, health, preds), j) \<Rightarrow>
        (case generate_savings_insights e clk j of
           Inl err \<Rightarrow> Inl err
         | Inr (insights, k) \<Rightarrow>
        (case detect_goal_conflicts e clk k of
           Inl err \<Rightarrow> Inl err
         | Inr (conflicts, l) \<Rightarrow>
        (case integrate_overspending_impact e clk l of
           Inl err \<Rightarrow> Inl err
         | Inr (impact, m) \<Rightarrow>
             Inr (\<lparr>report_summary =
                     \<lparr>total_goals = length (goals e),
                      total_target_amount = py_round total_target 2,
                      total_saved = py_round saved 2,
                      total_remaining = py_round (total_target - saved) 2,
                      overall_progress_percentage = py_round overall_progress 2,
                      summary_health_distribution = health,
                      goals_on_track = n_on_track health + n_completed health,
                      goals_needing_attention =
                        n_at_risk health + n_off_track health + n_unrealistic health\<rparr>,
                   report_goals = analysis,
                   report_goal_health = health,
                   report_conflicts = conflicts,
                   report_predictions = preds,
                   report_insights = insights,
                   savings_capacity = estimate_monthly_savings_capacity e,
                   report_stress_adjustments = adjust_goals_using_stress e,
                   report_overspending_impact = impact,
                   report_generated = clk m,
                   engine_version = ''1.0.0''\<rparr>, Suc m)))))"

definition get_savings_goals_report :: "engine \<Rightarrow> clock \<Rightarrow> nat \<Rightarrow> error + report \<times> nat" where
  "get_savings_goals_report e clk i =
     (case load_all e clk i of (e', j) \<Rightarrow> compile_report e' clk j)"

subsection \<open>Example inputs\<close>

text \<open>A clock that stands still: every reading is \<open>t\<close>.\<close>

definition steady_clock :: "datetime \<Rightarrow> clock" where
  "steady_clock t i = t"

text \<open>A clock whose first reading is \<open>t\<close> and whose later readings are all \<open>u\<close>.\<close>

definition jumping_clock :: "datetime \<Rightarrow> datetime \<Rightarrow> clock" where
  "jumping_clock t u i = (if i = 0 then t else u)"

text \<open>4 November 2026, the "now" of the examples.\<close>

definition nov_2026 :: datetime where
  "nov_2026 = \<lparr>year = 2026, month = 11, micros = 63929347200000000\<rparr>"

text \<open>
  An engine as constructed and then given a state with the two amounts
  (\<^verbatim>\<open>monthly_income\<close>, \<^verbatim>\<open>monthly_total\<close>), no overspending or stress section, no goals.
\<close>

definition signals :: "real \<Rightarrow> real \<Rightarrow> engine" where
  "signals earned spent =
     \<lparr>state = \<lparr>income = Some \<lparr>monthly_income = Some earned\<rparr>,
               expenses = Some \<lparr>monthly_total = Some spent\<rparr>,
               savings_goals = None, overspending = None, stress_index = None\<rparr>,
      goals = []\<rparr>"

text \<open>
  A goal \<^verbatim>\<open>g1\<close> with the given creation date, deadline, target amount, current amount and
  monthly contribution.
\<close>

definition new_goal :: "datetime \<Rightarrow> iso_text option \<Rightarrow> real \<Rightarrow> real \<Rightarrow> real \<Rightarrow> goal" where
  "new_goal created deadline target saved contribution =
     \<lparr>goal_id = ''g1'', name = ''Laptop'', goal_type = ''gadget'', target_amount = target,
      current_amount = saved, target_date = deadline, priority = ''medium'',
      monthly_contribution = contribution, created_date = Iso created,
      last_updated = Iso created, description = None\<rparr>"


text \<open>Dates of the examples: 1 August 2026, 30 November 2026, 1 November 2027.\<close>

definition aug_2026 :: datetime where
  "aug_2026 = \<lparr>year = 2026, month = 8, micros = 63921139200000000\<rparr>"

definition end_nov_2026 :: datetime where
  "end_nov_2026 = \<lparr>year = 2026, month = 11, micros = 63931593600000000\<rparr>"

definition nov_2027 :: datetime where
  "nov_2027 = \<lparr>year = 2027, month = 11, micros = 63960624000000000\<rparr>"

text \<open>1 September 2026 and 1 December 2026.\<close>

definition sep_2026 :: datetime where
  "sep_2026 = \<lparr>year = 2026, month = 9, micros = 63923817600000000\<rparr>"

definition dec_2026 :: datetime where
  "dec_2026 = \<lparr>year = 2026, month = 12, micros = 63931680000000000\<rparr>"

text \<open>1 January 2024 and 1 June 2024.\<close>

definition jan_2024 :: datetime where
  "jan_2024 = \<lparr>year = 2024, month = 1, micros = 63839664000000000\<rparr>"

definition jun_2024 :: datetime where
  "jun_2024 = \<lparr>year = 2024, month = 6, micros = 63852796800000000\<rparr>"

text \<open>
  A raw record with no key at all, and an engine whose state holds the given raw goal
  records and nothing else.
\<close>

definition empty_record :: raw_goal where
  "empty_record =
     \<lparr>raw_name = None, raw_type = None, raw_target_amount = None, raw_current_amount = None,
      raw_target_date = None, raw_priority = None, raw_monthly_contribution = None,
      raw_created_date = None, raw_last_updated = None, raw_description = None\<rparr>"

definition stored :: "(string \<times> raw_goal) list \<Rightarrow> engine" where
  "stored records =
     \<lparr>state = \<lparr>income = None, expenses = None, savings_goals = Some records,
               overspending = None, stress_index = None\<rparr>,
      goals = []\<rparr>"

subsection \<open>Predicates of the statements\<close>

text \<open>
  The dates of a goal are parseable: \<^verbatim>\<open>created_date\<close> is an ISO text, and so is
  \<^verbatim>\<open>target_date\<close> unless it is \<^verbatim>\<open>None\<close> or empty.
\<close>

fun parses :: "iso_text \<Rightarrow> bool" where
  "parses (Iso d) = True"
| "parses Empty_text = False"
| "parses Malformed_text = False"

definition parseable_dates :: "goal \<Rightarrow> bool" where
  "parseable_dates g =
     (parses (created_date g) \<and>
      (case target_date g of None \<Rightarrow> True | Some t \<Rightarrow> t = Empty_text \<or> parses t))"

text \<open>
  The three numeric fields of a raw record are absent or readable by \<^verbatim>\<open>float()\<close>.
\<close>

fun readable :: "raw_number option \<Rightarrow> bool" where
  "readable None = True"
| "readable (Some (Number x)) = True"
| "readable (Some (Numeric_text x)) = True"
| "readable (Some Unparseable_text) = False"
| "readable (Some Null_value) = False"

definition convertible :: "raw_goal \<Rightarrow> bool" where
  "convertible info =
     (readable (raw_target_amount info) \<and> readable (raw_current_amount info) \<and>
      readable (raw_monthly_contribution info))"

fun all_convertible :: "(string \<times> raw_goal) list \<Rightarrow> bool" where
  "all_convertible [] = True"
| "all_convertible ((gid, info) # rest) = (convertible info \<and> all_convertible rest)"

text \<open>
  One goal per record, in the order of the records, each built by the constructor call
  with the clock readings that follow those of the record before; the list ends before
  the first record whose constructor call raises.
\<close>

fun goals_of_records ::
  "(string \<times> raw_goal) list \<Rightarrow> clock \<Rightarrow> nat \<Rightarrow> (string \<times> goal) list" where
  "goals_of_records [] clk i = []"
| "goals_of_records ((gid, info) # rest) clk i =
     (case make_goal gid info clk i of
        Inl err \<Rightarrow> []
      | Inr (g, j) \<Rightarrow> (gid, g) # goals_of_records rest clk j)"

section \<open>Properties\<close>

subsection \<open>Rounding\<close>

lemma round_half_even_nonneg: "0 \<le> y \<Longrightarrow> 0 \<le> round_half_even y"
  unfolding round_half_even_def Let_def by (auto simp: zero_le_floor)

lemma round_half_even_mono:
  assumes "x \<le> y"
  shows "round_half_even x \<le> round_half_even y"
proof -
  have fm: "\<lfloor>x\<rfloor> \<le> \<lfloor>y\<rfloor>"
    using assms by (rule floor_mono)
  have strict: "\<lfloor>x\<rfloor> + 1 \<le> \<lfloor>y\<rfloor>"
    if a: "1 / 2 \<le> x - of_int \<lfloor>x\<rfloor>" "y - of_int \<lfloor>y\<rfloor> < 1 / 2"
  proof -
    have "real_of_int \<lfloor>x\<rfloor> < real_of_int \<lfloor>y\<rfloor>"
      using a assms by linarith
    then show ?thesis by linarith
  qed
  have same: "x - of_int \<lfloor>x\<rfloor> \<le> y - of_int \<lfloor>y\<rfloor>" if "\<lfloor>x\<rfloor> = \<lfloor>y\<rfloor>"
    using assms that by simp
  show ?thesis
    unfolding round_half_even_def Let_def
    using fm strict same
    by (cases "\<lfloor>x\<rfloor> = \<lfloor>y\<rfloor>") (auto simp: not_less)
qed

lemma round_half_even_of_int: "round_half_even (of_int k) = k"
  unfolding round_half_even_def Let_def by simp

lemma py_round_nonneg: "0 \<le> x \<Longrightarrow> 0 \<le> py_round x n"
  unfolding py_round_def by (simp add: round_half_even_nonneg)

lemma py_round_mono: "x \<le> y \<Longrightarrow> py_round x n \<le> py_round y n"
  unfolding py_round_def by (simp add: round_half_even_mono divide_right_mono)

lemma py_round_zero: "py_round 0 n = 0"
  unfolding py_round_def round_half_even_def by simp

lemma py_round_100: "py_round 100 2 = 100"
  unfolding py_round_def round_half_even_def by simp

lemma py_round_idem: "py_round (py_round x n) n = py_round x n"
  unfolding py_round_def by (simp add: round_half_even_of_int)

lemma rounded_over_implies_over:
  assumes "py_round b 2 < py_round a 2"
  shows "py_round b 2 < a"
proof (rule ccontr)
  assume "\<not> py_round b 2 < a"
  then have "a \<le> py_round b 2" by simp
  from py_round_mono [OF this, of 2] have "py_round a 2 \<le> py_round b 2"
    by (simp add: py_round_idem)
  with assms show False by simp
qed

lemmas capacity_defs =
  estimate_monthly_savings_capacity_def base_savings_def stress_multiplier_def
  get_income_def get_expenses_def get_overspending_data_def get_stress_index_def get_or_def

lemmas round_defs = py_round_def round_half_even_def Let_def

subsection \<open>Capacity estimator\<close>

lemma stress_multiplier_pos: "0 < stress_multiplier e"
  unfolding stress_multiplier_def Let_def by (auto simp: max_def)

text \<open>
  C3, as stated, fails: the bands returned are rounded to two decimals, so a band is not
  the product floored at 0. With a monthly income of 0.03 and nothing else, the
  conservative band returned is 0.01, while 0.2 times the base times the multiplier is
  0.006.
\<close>

theorem capacity_band_not_plain_product:
  "conservative (estimate_monthly_savings_capacity
      \<lparr>state = \<lparr>income = Some \<lparr>monthly_income = Some 0.03\<rparr>, expenses = None,
                savings_goals = None, overspending = None, stress_index = None\<rparr>,
       goals = []\<rparr>) = 0.01 \<and>
   max 0 (0.2 *
      base_savings
        \<lparr>state = \<lparr>income = Some \<lparr>monthly_income = Some 0.03\<rparr>, expenses = None,
                  savings_goals = None, overspending = None, stress_index = None\<rparr>,
         goals = []\<rparr> *
      stress_multiplier
        \<lparr>state = \<lparr>income = Some \<lparr>monthly_income = Some 0.03\<rparr>, expenses = None,
                  savings_goals = None, overspending = None, stress_index = None\<rparr>,
         goals = []\<rparr>) = 0.006"
  by (simp add: capacity_defs round_defs)

text \<open>
  C3, amended: for every signal snapshot, each of the four bands returned by
  \<^verbatim>\<open>estimate_monthly_savings_capacity\<close> is its factor (0.2, 0.4, 0.7, 1.0) times the base
  times the stress multiplier, floored at 0 and then rounded to two decimals; no band is
  negative; the two flags say whether the multiplier is below 1 and whether overspending
  is active. For income 50000, expenses 45000, no stress and no overspending the result is
  base 5000 and bands 1000, 2000, 3500, 5000.
\<close>

theorem capacity_bands:
  "conservative (estimate_monthly_savings_capacity e) =
     py_round (max 0 (0.2 * base_savings e * stress_multiplier e)) 2 \<and>
   moderate (estimate_monthly_savings_capacity e) =
     py_round (max 0 (0.4 * base_savings e * stress_multiplier e)) 2 \<and>
   aggressive (estimate_monthly_savings_capacity e) =
     py_round (max 0 (0.7 * base_savings e * stress_multiplier e)) 2 \<and>
   maximum (estimate_monthly_savings_capacity e) =
     py_round (max 0 (1.0 * base_savings e * stress_multiplier e)) 2 \<and>
   0 \<le> conservative (estimate_monthly_savings_capacity e) \<and>
   0 \<le> moderate (estimate_monthly_savings_capacity e) \<and>
   0 \<le> aggressive (estimate_monthly_savings_capacity e) \<and>
   0 \<le> maximum (estimate_monthly_savings_capacity e) \<and>
   stress_adjusted (estimate_monthly_savings_capacity e) = (stress_multiplier e < 1) \<and>
   overspending_impact (estimate_monthly_savings_capacity e) =
     get_or (is_overspending (get_overspending_data e)) False \<and>
   estimate_monthly_savings_capacity
     \<lparr>state = \<lparr>income = Some \<lparr>monthly_income = Some 50000\<rparr>,
               expenses = Some \<lparr>monthly_total = Some 45000\<rparr>,
               savings_goals = None,
               overspending = Some \<lparr>is_overspending = Some False, overspending_amount = Some 0,
                                    affected_categories = Some [], severity = Some ''low''\<rparr>,
               stress_index = Some \<lparr>stress_score = Some 0, stress_level = Some ''low'',
                                    is_stressed = Some False\<rparr>\<rparr>,
      goals = []\<rparr> =
     \<lparr>base_capacity = 5000, conservative = 1000, moderate = 2000, aggressive = 3500,
      maximum = 5000, stress_adjusted = False, overspending_impact = False\<rparr>"
proof -
  have bands: "0 \<le> py_round (max 0 k) 2" for k
    by (simp add: py_round_nonneg)
  have scenario: "estimate_monthly_savings_capacity
     \<lparr>state = \<lparr>income = Some \<lparr>monthly_income = Some 50000\<rparr>,
               expenses = Some \<lparr>monthly_total = Some 45000\<rparr>,
               savings_goals = None,
               overspending = Some \<lparr>is_overspending = Some False, overspending_amount = Some 0,
                                    affected_categories = Some [], severity = Some ''low''\<rparr>,
               stress_index = Some \<lparr>stress_score = Some 0, stress_level = Some ''low'',
                                    is_stressed = Some False\<rparr>\<rparr>,
      goals = []\<rparr> =
     \<lparr>base_capacity = 5000, conservative = 1000, moderate = 2000, aggressive = 3500,
      maximum = 5000, stress_adjusted = False, overspending_impact = False\<rparr>"
    by (simp add: capacity_defs round_defs)
  show ?thesis
    unfolding scenario
    by (simp add: estimate_monthly_savings_capacity_def Let_def bands mult.commute
        mult.left_commute)
qed

subsection \<open>Evaluation of the examples\<close>

lemmas example_defs =
  signals_def new_goal_def stored_def empty_record_def nov_2026_def aug_2026_def
  end_nov_2026_def nov_2027_def jan_2024_def jun_2024_def sep_2026_def dec_2026_def
  steady_clock_def jumping_clock_def

lemmas progress_defs = calculate_goal_progress_def months_between_def

lemmas feasibility_defs =
  evaluate_goal_feasibility_def required_monthly_savings_def check_capacity_def
  check_stress_def check_overspending_def check_history_def check_timeline_def
  timeline_unrealistic_def summary_of_def or_12_def py_div_def py_int_def

lemmas report_defs =
  get_savings_goals_report_def load_all_def get_savings_goals_def load_state_def
  compile_report_def generate_savings_insights_def detect_goal_conflicts_def
  integrate_overspending_impact_def adjust_goals_using_stress_def


subsection \<open>Progress calculator\<close>

lemma fromisoformat_Inr [simp]: "fromisoformat a = Inr d \<longleftrightarrow> a = Iso d"
  by (cases a) auto

lemma progress_returns:
  "parseable_dates g \<Longrightarrow> \<exists>p. calculate_goal_progress g clk i = Inr (p, Suc i)"
  unfolding parseable_dates_def
  by (cases "created_date g"; cases "target_date g"; cases "the (target_date g)")
     (auto simp: calculate_goal_progress_def Let_def)

lemma progress_returns_iff:
  "(\<exists>p j. calculate_goal_progress g clk i = Inr (p, j)) \<longleftrightarrow> parseable_dates g"
  unfolding parseable_dates_def
  by (cases "created_date g"; cases "target_date g"; cases "the (target_date g)")
     (auto simp: calculate_goal_progress_def Let_def)

lemma progress_raises:
  "\<not> parseable_dates g \<Longrightarrow> calculate_goal_progress g clk i = Inl ValueError"
  unfolding parseable_dates_def
  by (cases "created_date g"; cases "target_date g"; cases "the (target_date g)")
     (auto simp: calculate_goal_progress_def Let_def)

lemma progress_months_elapsed:
  "calculate_goal_progress g clk i = Inr (p, j) \<Longrightarrow> 1 \<le> months_elapsed p \<and> j = Suc i"
  by (auto simp: calculate_goal_progress_def Let_def split: sum.splits if_splits prod.splits)

lemma progress_cases:
  assumes "calculate_goal_progress g clk i = Inr (p, j)"
  shows "(\<not> truthy (target_date g) \<and> time_elapsed_percentage p = py_round 0 2) \<or>
         (\<exists>created target.
            created_date g = Iso created \<and> target_date g = Some (Iso target) \<and>
            time_elapsed_percentage p =
              py_round (of_int (max 1 (months_between created (clk i))) /
                        of_int (max 1 (months_between created target)) * 100) 2)"
  using assms
  by (cases "created_date g"; cases "target_date g")
     (auto simp: calculate_goal_progress_def Let_def split: sum.splits if_splits iso_text.splits)

text \<open>
  C6, as stated, fails: the elapsed-time percentage has no upper clamp. A goal created in
  January 2024 with its deadline in June 2024 has, in November 2026, 34 months elapsed of
  5, and \<^verbatim>\<open>time_elapsed_percentage\<close> is 680.
\<close>

theorem time_elapsed_over_100:
  "calculate_goal_progress (new_goal jan_2024 (Some (Iso jun_2024)) 1000 0 50)
     (steady_clock nov_2026) 0 =
   Inr (\<lparr>progress_goal_id = ''g1'', completion_percentage = 0,
          time_elapsed_percentage = 680, expected_progress = 680,
          actual_progress = 0, variance = - 680, on_track = False,
          months_elapsed = 34, months_remaining = Some 0\<rparr>, 1)"
  by (simp add: example_defs progress_defs round_defs)

text \<open>
  C6, amended: for every goal with parseable \<^verbatim>\<open>created_date\<close> and \<^verbatim>\<open>target_date\<close>,
  \<^verbatim>\<open>calculate_goal_progress\<close> returns, its \<^verbatim>\<open>time_elapsed_percentage\<close> is at least 0, it
  is 0 when the goal has no \<^verbatim>\<open>target_date\<close>, and it is at most 100 whenever the months
  elapsed since creation (at least 1) do not exceed the months from creation to the
  deadline (at least 1).
\<close>

theorem time_elapsed_bounds:
  assumes "parseable_dates g"
  shows "\<exists>p. calculate_goal_progress g clk i = Inr (p, Suc i) \<and>
             0 \<le> time_elapsed_percentage p \<and>
             (\<not> truthy (target_date g) \<longrightarrow> time_elapsed_percentage p = 0) \<and>
             (\<forall>created target.
                created_date g = Iso created \<and> target_date g = Some (Iso target) \<and>
                max 1 (months_between created (clk i)) \<le> max 1 (months_between created target)
                \<longrightarrow> time_elapsed_percentage p \<le> 100)"
proof -
  from progress_returns [OF assms] obtain p where
    run: "calculate_goal_progress g clk i = Inr (p, Suc i)" by blast
  have frac: "0 \<le> real_of_int (max 1 a) / real_of_int (max 1 b) * 100" for a b :: int
    by simp
  have le: "real_of_int (max 1 a) / real_of_int (max 1 b) * 100 \<le> 100"
    if "max 1 a \<le> max 1 b" for a b :: int
  proof -
    have "real_of_int (max 1 a) \<le> real_of_int (max 1 b)"
      using that by (simp only: of_int_le_iff)
    moreover have "0 < real_of_int (max 1 b)" by simp
    ultimately have "real_of_int (max 1 a) / real_of_int (max 1 b) \<le> 1"
      by (simp only: divide_le_eq_1_pos)
    from mult_right_mono [OF this, of 100] show ?thesis by simp
  qed
  have "0 \<le> time_elapsed_percentage p \<and>
        (\<not> truthy (target_date g) \<longrightarrow> time_elapsed_percentage p = 0) \<and>
        (\<forall>created target.
           created_date g = Iso created \<and> target_date g = Some (Iso target) \<and>
           max 1 (months_between created (clk i)) \<le> max 1 (months_between created target)
           \<longrightarrow> time_elapsed_percentage p \<le> 100)"
    using progress_cases [OF run]
  proof
    assume "\<not> truthy (target_date g) \<and> time_elapsed_percentage p = py_round 0 2"
    then show ?thesis by (auto simp: py_round_zero)
  next
    assume "\<exists>created target.
            created_date g = Iso created \<and> target_date g = Some (Iso target) \<and>
            time_elapsed_percentage p =
              py_round (of_int (max 1 (months_between created (clk i))) /
                        of_int (max 1 (months_between created target)) * 100) 2"
    then obtain created target where
      c: "created_date g = Iso created" and t: "target_date g = Some (Iso target)" and
      eq: "time_elapsed_percentage p =
              py_round (of_int (max 1 (months_between created (clk i))) /
                        of_int (max 1 (months_between created target)) * 100) 2"
      by blast
    have nonneg: "0 \<le> time_elapsed_percentage p"
      unfolding eq by (rule py_round_nonneg [OF frac])
    have upper: "time_elapsed_percentage p \<le> 100"
      if "max 1 (months_between created (clk i)) \<le> max 1 (months_between created target)"
      unfolding eq using py_round_mono [OF le [OF that], of 2] by (simp only: py_round_100)
    show ?thesis
      using nonneg upper c t by auto
  qed
  with run show ?thesis by blast
qed

theorem time_elapsed_bounds_witness:
  "parseable_dates (new_goal aug_2026 (Some (Iso nov_2027)) 12000 0 50) \<and>
   max 1 (months_between aug_2026 (steady_clock nov_2026 0)) \<le>
     max 1 (months_between aug_2026 nov_2027) \<and>
   (\<exists>p. calculate_goal_progress (new_goal aug_2026 (Some (Iso nov_2027)) 12000 0 50)
          (steady_clock nov_2026) 0 = Inr (p, Suc 0) \<and>
        0 \<le> time_elapsed_percentage p \<and> time_elapsed_percentage p \<le> 100)"
proof -
  have a: "parseable_dates (new_goal aug_2026 (Some (Iso nov_2027)) 12000 0 50)"
    by (simp add: parseable_dates_def new_goal_def)
  have b: "max 1 (months_between aug_2026 (steady_clock nov_2026 0)) \<le>
           max 1 (months_between aug_2026 nov_2027)"
    by (simp add: example_defs months_between_def)
  have c: "created_date (new_goal aug_2026 (Some (Iso nov_2027)) 12000 0 50) = Iso aug_2026"
    "target_date (new_goal aug_2026 (Some (Iso nov_2027)) 12000 0 50) = Some (Iso nov_2027)"
    by (simp_all add: new_goal_def)
  from time_elapsed_bounds [OF a, of "steady_clock nov_2026" 0] a b c
  show ?thesis by blast
qed

subsection \<open>Feasibility evaluator\<close>

lemma check_capacity_over:
  "maximum cap < required \<Longrightarrow>
   v_feasible (check_capacity cap progress required v) = False \<and>
   v_score (check_capacity cap progress required v) = v_score v - 50"
  by (simp add: check_capacity_def)

lemma check_stress_feasible: "v_feasible (check_stress e v) = v_feasible v"
  by (simp add: check_stress_def)

lemma check_overspending_feasible: "v_feasible (check_overspending e v) = v_feasible v"
  by (simp add: check_overspending_def)

lemma check_history_feasible: "v_feasible (check_history p v) = v_feasible v"
  by (simp add: check_history_def)

lemma check_timeline_feasible:
  "check_timeline cap g p v = Inr v' \<Longrightarrow> \<not> v_feasible v \<Longrightarrow> \<not> v_feasible v'"
  by (auto simp: check_timeline_def split: if_splits sum.splits)

lemma check_stress_score:
  "v_score (check_stress e v) =
   v_score v - (if get_or (is_stressed (get_stress_index e)) False then 15 else 0)"
  by (simp add: check_stress_def)

lemma check_overspending_score:
  "v_score (check_overspending e v) =
   v_score v - (if get_or (is_overspending (get_overspending_data e)) False then 15 else 0)"
  by (simp add: check_overspending_def)

lemma check_history_score:
  "v_score (check_history p v) = v_score v - (if variance p < - 20 then 20 else 0)"
  by (simp add: check_history_def)

lemma check_timeline_score:
  "check_timeline cap g p v = Inr v' \<Longrightarrow>
   v_score v' = v_score v - (if timeline_unrealistic cap g p then 30 else 0)"
  by (auto simp: check_timeline_def split: if_splits sum.splits)

text \<open>
  When the evaluation raises: the dates do not parse (\<^verbatim>\<open>ValueError\<close>, from the progress
  calculation), or check 5 fires while the moderate band is 0 (\<^verbatim>\<open>ZeroDivisionError\<close>).
\<close>

lemma check_timeline_raises:
  "(\<exists>err. check_timeline cap g p v = Inl err) \<longleftrightarrow>
   timeline_unrealistic cap g p \<and> moderate cap = 0"
  by (auto simp: check_timeline_def py_div_def split: if_splits sum.splits)

lemma feasibility_zero_division:
  assumes "calculate_goal_progress g clk i = Inr (p, j)"
  shows "evaluate_goal_feasibility e g clk i = Inl ZeroDivisionError \<longleftrightarrow>
         timeline_unrealistic (estimate_monthly_savings_capacity e) g p \<and>
         moderate (estimate_monthly_savings_capacity e) = 0"
  using assms
  by (auto simp: evaluate_goal_feasibility_def Let_def check_timeline_def py_div_def
      split: if_splits sum.splits)

text \<open>
  C1 (the code departs from the claim): with zero capacity the division by the moderate
  band in the recommendation of check 5 is not guarded. Income 3000 and expenses 3000 give
  bands that are all 0; for a goal of 1000 with nothing saved whose deadline is in the
  current month, \<^verbatim>\<open>evaluate_goal_feasibility\<close> raises \<^verbatim>\<open>ZeroDivisionError\<close>.
\<close>

theorem feasibility_raises_on_zero_capacity:
  "estimate_monthly_savings_capacity (signals 3000 3000) =
     \<lparr>base_capacity = 0, conservative = 0, moderate = 0, aggressive = 0, maximum = 0,
      stress_adjusted = False, overspending_impact = False\<rparr> \<and>
   evaluate_goal_feasibility (signals 3000 3000)
     (new_goal aug_2026 (Some (Iso end_nov_2026)) 1000 0 50) (steady_clock nov_2026) 0 =
   Inl ZeroDivisionError"
  by (simp add: example_defs progress_defs feasibility_defs capacity_defs round_defs)

text \<open>
  The branch \<^verbatim>\<open># Due now\<close> of the dispatch cannot be reached: a deadline with
  \<^verbatim>\<open>months_remaining = 0\<close> fails the truthiness test of the outer condition.
\<close>

lemma due_now_unreachable:
  "months_remaining p = Some 0 \<Longrightarrow> required_monthly_savings g p = monthly_contribution g"
  by (simp add: required_monthly_savings_def)

lemma required_monthly_with_time_left:
  "truthy (target_date g) \<Longrightarrow> months_remaining p = Some n \<Longrightarrow> 0 < n \<Longrightarrow>
   required_monthly_savings g p = (target_amount g - current_amount g) / of_int n"
  by (simp add: required_monthly_savings_def)

lemma required_monthly_without_deadline:
  "\<not> truthy (target_date g) \<Longrightarrow> required_monthly_savings g p = monthly_contribution g"
  by (simp add: required_monthly_savings_def)

text \<open>
  C4 (the code departs from the claim): a goal of 1000 with nothing saved, a monthly
  contribution of 50 and its deadline in the current month (\<^verbatim>\<open>months_remaining = 0\<close>) gets
  \<^verbatim>\<open>required_monthly = 50\<close>, the stated contribution, where the claim says the remaining
  1000.
\<close>

theorem due_now_requires_contribution:
  "evaluate_goal_feasibility (signals 10000 0)
     (new_goal aug_2026 (Some (Iso end_nov_2026)) 1000 0 50) (steady_clock nov_2026) 0 =
   Inr (\<lparr>is_feasible = True, feasibility_score = 80, required_monthly = 50,
          available_capacity = 4000, capacity_utilization = 0.5,
          summary = ''Highly feasible - goal is well within reach'',
          reasons = [Behind_schedule_by 100],
          recommendations =
            [Plain ''Review and adjust monthly contribution or extend timeline'']\<rparr>, 1)"
  by (simp add: example_defs progress_defs feasibility_defs capacity_defs round_defs)

lemma maximum_rounded:
  "maximum (estimate_monthly_savings_capacity e) =
   py_round (max 0 (base_savings e * stress_multiplier e)) 2"
  by (simp add: estimate_monthly_savings_capacity_def Let_def)

lemma returned_required:
  "evaluate_goal_feasibility e g clk i = Inr (r, j) \<Longrightarrow>
   calculate_goal_progress g clk i = Inr (p, k) \<Longrightarrow>
   required_monthly r = py_round (required_monthly_savings g p) 2"
  by (auto simp: evaluate_goal_feasibility_def Let_def split: sum.splits)

text \<open>
  C5: whenever \<^verbatim>\<open>evaluate_goal_feasibility\<close> returns for a goal whose required monthly
  amount exceeds the maximum band (the amount as computed, or as returned, rounded, in
  \<^verbatim>\<open>required_monthly\<close>), \<^verbatim>\<open>is_feasible\<close> is False and the score has lost the 50 points of
  check 1: it is 100 minus 50 minus the penalties of the later checks, floored at 0, hence
  at most 50.
\<close>

theorem infeasible_over_maximum:
  assumes run: "evaluate_goal_feasibility e g clk i = Inr (r, j)"
    and prog: "calculate_goal_progress g clk i = Inr (p, k)"
    and exceeds: "maximum (estimate_monthly_savings_capacity e) < required_monthly_savings g p \<or>
                  maximum (estimate_monthly_savings_capacity e) < required_monthly r"
  shows "\<not> is_feasible r \<and>
         feasibility_score r =
           max 0 (100 - 50
             - (if get_or (is_stressed (get_stress_index e)) False then 15 else 0)
             - (if get_or (is_overspending (get_overspending_data e)) False then 15 else 0)
             - (if variance p < - 20 then 20 else 0)
             - (if timeline_unrealistic (estimate_monthly_savings_capacity e) g p
                then 30 else 0)) \<and>
         feasibility_score r \<le> 50"
proof -
  define cap where "cap = estimate_monthly_savings_capacity e"
  define v0 where "v0 = \<lparr>v_feasible = True, v_score = 100, v_reasons = [],
                          v_recommendations = ([]::message list)\<rparr>"
  define v4 where "v4 = check_history p (check_overspending e (check_stress e
                           (check_capacity cap p (required_monthly_savings g p) v0)))"
  have over: "maximum (estimate_monthly_savings_capacity e) < required_monthly_savings g p"
    using exceeds
  proof
    assume "maximum (estimate_monthly_savings_capacity e) < required_monthly r"
    then show ?thesis
      unfolding returned_required [OF run prog] maximum_rounded
      by (rule rounded_over_implies_over)
  qed
  from run prog obtain v5 where
    v5: "check_timeline cap g p v4 = Inr v5" and
    r: "is_feasible r = v_feasible v5" "feasibility_score r = max 0 (v_score v5)"
    by (auto simp: evaluate_goal_feasibility_def Let_def cap_def v0_def v4_def
        split: sum.splits)
  have f4: "\<not> v_feasible v4"
    using over
    by (simp add: v4_def cap_def check_history_feasible check_overspending_feasible
        check_stress_feasible check_capacity_over)
  have s4: "v_score v4 = 100 - 50
             - (if get_or (is_stressed (get_stress_index e)) False then 15 else 0)
             - (if get_or (is_overspending (get_overspending_data e)) False then 15 else 0)
             - (if variance p < - 20 then 20 else 0)"
    using over
    by (simp add: v4_def cap_def v0_def check_history_score check_overspending_score
        check_stress_score check_capacity_over)
  have s5: "v_score v5 = v_score v4 - (if timeline_unrealistic cap g p then 30 else 0)"
    by (rule check_timeline_score [OF v5])
  have f5: "\<not> v_feasible v5"
    by (rule check_timeline_feasible [OF v5 f4])
  show ?thesis
    using f5 r s4 s5 by (auto simp: cap_def)
qed

theorem infeasible_over_maximum_witness:
  "evaluate_goal_feasibility (signals 100 0)
     (new_goal aug_2026 (Some (Iso nov_2027)) 12000 0 50) (steady_clock nov_2026) 0 =
   Inr (\<lparr>is_feasible = False, feasibility_score = 50, required_monthly = 1000,
          available_capacity = 40, capacity_utilization = 1000,
          summary = ''Challenging but possible - requires optimization'',
          reasons = [Required_exceeds_maximum 1000 100],
          recommendations = [Extend_date_or_reduce_by 10800]\<rparr>, 1) \<and>
   calculate_goal_progress (new_goal aug_2026 (Some (Iso nov_2027)) 12000 0 50)
     (steady_clock nov_2026) 0 =
   Inr (\<lparr>progress_goal_id = ''g1'', completion_percentage = 0,
          time_elapsed_percentage = 20, expected_progress = 20,
          actual_progress = 0, variance = - 20, on_track = False,
          months_elapsed = 3, months_remaining = Some 12\<rparr>, 1) \<and>
   maximum (estimate_monthly_savings_capacity (signals 100 0)) <
   required_monthly_savings (new_goal aug_2026 (Some (Iso nov_2027)) 12000 0 50)
     \<lparr>progress_goal_id = ''g1'', completion_percentage = 0,
      time_elapsed_percentage = 20, expected_progress = 20,
      actual_progress = 0, variance = - 20, on_track = False,
      months_elapsed = 3, months_remaining = Some 12\<rparr> \<and>
   \<not> is_feasible
       \<lparr>is_feasible = False, feasibility_score = 50, required_monthly = 1000,
        available_capacity = 40, capacity_utilization = 1000,
        summary = ''Challenging but possible - requires optimization'',
        reasons = [Required_exceeds_maximum 1000 100],
        recommendations = [Extend_date_or_reduce_by 10800]\<rparr>"
proof -
  have run: "evaluate_goal_feasibility (signals 100 0)
     (new_goal aug_2026 (Some (Iso nov_2027)) 12000 0 50) (steady_clock nov_2026) 0 =
   Inr (\<lparr>is_feasible = False, feasibility_score = 50, required_monthly = 1000,
          available_capacity = 40, capacity_utilization = 1000,
          summary = ''Challenging but possible - requires optimization'',
          reasons = [Required_exceeds_maximum 1000 100],
          recommendations = [Extend_date_or_reduce_by 10800]\<rparr>, 1)"
    by (simp add: example_defs progress_defs feasibility_defs capacity_defs round_defs)
  have prog: "calculate_goal_progress (new_goal aug_2026 (Some (Iso nov_2027)) 12000 0 50)
     (steady_clock nov_2026) 0 =
   Inr (\<lparr>progress_goal_id = ''g1'', completion_percentage = 0,
          time_elapsed_percentage = 20, expected_progress = 20,
          actual_progress = 0, variance = - 20, on_track = False,
          months_elapsed = 3, months_remaining = Some 12\<rparr>, 1)"
    by (simp add: example_defs progress_defs round_defs)
  have over: "maximum (estimate_monthly_savings_capacity (signals 100 0)) <
   required_monthly_savings (new_goal aug_2026 (Some (Iso nov_2027)) 12000 0 50)
     \<lparr>progress_goal_id = ''g1'', completion_percentage = 0,
      time_elapsed_percentage = 20, expected_progress = 20,
      actual_progress = 0, variance = - 20, on_track = False,
      months_elapsed = 3, months_remaining = Some 12\<rparr>"
    by (simp add: example_defs required_monthly_savings_def capacity_defs round_defs)
  from infeasible_over_maximum [OF run prog disjI1 [OF over]] run prog over
  show ?thesis by blast
qed

subsection \<open>Conflict detector\<close>

text \<open>What does hold: when the detection returns, the overload conflict is in the list.\<close>

lemma capacity_overload_reported:
  assumes "detect_goal_conflicts e clk i = Inr (cs, j)" and "goals e \<noteq> []"
    and "maximum (estimate_monthly_savings_capacity e) <
         sum_list (map monthly_contribution (map snd (goals e)))"
  shows "\<exists>c \<in> set cs. conflict_type c = ''capacity_overload'' \<and>
           conflict_severity c = ''high'' \<and>
           conflict_affected_goals c = Goal_ids (map fst (goals e))"
  using assms
  by (auto simp: detect_goal_conflicts_def Let_def split: sum.splits prod.splits)

text \<open>
  C2 (the code departs from the claim): the detection can raise. With income 3000 and
  expenses 3000 (all bands 0) and the single goal \<^verbatim>\<open>g1\<close> of 1000, contribution 50, deadline
  in the current month, the sum of contributions (50) exceeds the maximum band (0), and
  \<^verbatim>\<open>detect_goal_conflicts\<close> raises \<^verbatim>\<open>ZeroDivisionError\<close> in its loop over the goals
  instead of returning a list.
\<close>

theorem conflict_detection_raises:
  "maximum (estimate_monthly_savings_capacity (signals 3000 3000)) <
   sum_list (map monthly_contribution
     [new_goal aug_2026 (Some (Iso end_nov_2026)) 1000 0 50]) \<and>
   detect_goal_conflicts
     ((signals 3000 3000)
        \<lparr>goals := [(''g1'', new_goal aug_2026 (Some (Iso end_nov_2026)) 1000 0 50)]\<rparr>)
     (steady_clock nov_2026) 0 = Inl ZeroDivisionError"
  by (simp add: detect_goal_conflicts_def example_defs progress_defs feasibility_defs
      capacity_defs round_defs)

subsection \<open>Completion predictor\<close>

text \<open>
  C7, as stated, fails: the prediction starts with the progress calculation, which parses
  the dates without a handler. A goal with \<^verbatim>\<open>current_amount = 0\<close> whose \<^verbatim>\<open>target_date\<close> is
  not an ISO text gets a \<^verbatim>\<open>ValueError\<close>, not the sentinel.
\<close>

theorem zero_rate_prediction_raises:
  "current_amount (new_goal aug_2026 (Some Malformed_text) 1000 0 50) = 0 \<and>
   predict_goal_completion (signals 10000 0)
     (new_goal aug_2026 (Some Malformed_text) 1000 0 50) (steady_clock nov_2026) 0 =
   Inl ValueError"
  by (simp add: predict_goal_completion_def example_defs progress_defs)

text \<open>
  C7, amended: for every goal with \<^verbatim>\<open>current_amount = 0\<close>, if its dates are parseable
  then \<^verbatim>\<open>predict_goal_completion\<close> returns, with \<^verbatim>\<open>months_to_completion = 999\<close>, no
  predicted completion date, a predicted monthly rate of 0 and a success probability of
  0.1 (so at most 0.1); if they are not, it raises \<^verbatim>\<open>ValueError\<close>.
\<close>

theorem zero_rate_prediction:
  assumes "current_amount g = 0"
  shows "(parseable_dates g \<longrightarrow>
           (\<exists>r. predict_goal_completion e g clk i = Inr (r, Suc i) \<and>
                months_to_completion r = 999 \<and> predicted_completion_date r = None \<and>
                success_probability r = 0.1 \<and> success_probability r \<le> 0.1 \<and>
                predicted_monthly_rate r = 0)) \<and>
         (\<not> parseable_dates g \<longrightarrow> predict_goal_completion e g clk i = Inl ValueError)"
proof (cases "parseable_dates g")
  case True
  from progress_returns [OF True] obtain p where
    p: "calculate_goal_progress g clk i = Inr (p, Suc i)" by blast
  have m: "0 < months_elapsed p" using progress_months_elapsed [OF p] by simp
  have r999: "py_round 999 (Suc 0) = 999" by (simp add: round_defs)
  have r01: "py_round 0.1 2 = 0.1" by (simp add: round_defs)
  show ?thesis
    using True p m assms
    by (simp add: predict_goal_completion_def Let_def r999 r01 py_round_zero)
next
  case False
  from progress_raises [OF False] show ?thesis
    using False by (simp add: predict_goal_completion_def)
qed

theorem zero_rate_prediction_witness:
  "current_amount (new_goal aug_2026 (Some (Iso nov_2027)) 1000 0 50) = 0 \<and>
   parseable_dates (new_goal aug_2026 (Some (Iso nov_2027)) 1000 0 50) \<and>
   (\<exists>r. predict_goal_completion (signals 10000 0)
          (new_goal aug_2026 (Some (Iso nov_2027)) 1000 0 50) (steady_clock nov_2026) 0 =
          Inr (r, Suc 0) \<and>
        months_to_completion r = 999 \<and> predicted_completion_date r = None \<and>
        success_probability r = 0.1) \<and>
   current_amount (new_goal aug_2026 (Some Malformed_text) 1000 0 50) = 0 \<and>
   \<not> parseable_dates (new_goal aug_2026 (Some Malformed_text) 1000 0 50) \<and>
   predict_goal_completion (signals 0 0)
     (new_goal aug_2026 (Some Malformed_text) 1000 0 50) (steady_clock nov_2026) 7 =
   Inl ValueError"
proof -
  have a: "parseable_dates (new_goal aug_2026 (Some (Iso nov_2027)) 1000 0 50)"
    by (simp add: parseable_dates_def new_goal_def)
  have b: "current_amount (new_goal aug_2026 (Some (Iso nov_2027)) 1000 0 50) = 0"
    by (simp add: new_goal_def)
  have c: "\<not> parseable_dates (new_goal aug_2026 (Some Malformed_text) 1000 0 50)"
    by (simp add: parseable_dates_def new_goal_def)
  have d: "current_amount (new_goal aug_2026 (Some Malformed_text) 1000 0 50) = 0"
    by (simp add: new_goal_def)
  from zero_rate_prediction [OF b, of "signals 10000 0" "steady_clock nov_2026" 0]
    zero_rate_prediction [OF d, of "signals 0 0" "steady_clock nov_2026" 7] a b c d
  show ?thesis by blast
qed

subsection \<open>Readings of the clock\<close>





























subsection \<open>Goal store adapter\<close>

lemma readable_float: "readable v \<longleftrightarrow> (\<exists>x. py_float (get_or v (Number 0)) = Inr x)"
  by (cases v rule: readable.cases) (auto simp: get_or_def)

lemma make_goal_returns:
  "(\<exists>g. make_goal gid info clk i = Inr (g, i + 2)) \<longleftrightarrow> convertible info"
  unfolding convertible_def readable_float
  by (auto simp: make_goal_def split: sum.splits)

lemma make_goal_ticks:
  "make_goal gid info clk i = Inr (g, j) \<Longrightarrow> j = i + 2 \<and> goal_id g = gid"
  by (auto simp: make_goal_def split: sum.splits)

lemma make_goal_raises: "\<not> convertible info \<Longrightarrow> \<exists>err. make_goal gid info clk i = Inl err"
  using make_goal_returns [of gid info clk i] make_goal_ticks [of gid info clk i]
  by (cases "make_goal gid info clk i") auto

lemma make_goal_defaults:
  "make_goal gid info clk i = Inr (g, j) \<Longrightarrow>
   goal_id g = gid \<and>
   (raw_target_amount info = None \<longrightarrow> target_amount g = 0) \<and>
   (raw_current_amount info = None \<longrightarrow> current_amount g = 0) \<and>
   (raw_monthly_contribution info = None \<longrightarrow> monthly_contribution g = 0) \<and>
   (raw_priority info = None \<longrightarrow> priority g = ''medium'') \<and>
   (raw_type info = None \<longrightarrow> goal_type g = ''custom'') \<and>
   (raw_created_date info = None \<longrightarrow> created_date g = Iso (clk i)) \<and>
   (raw_last_updated info = None \<longrightarrow> last_updated g = Iso (clk (Suc i)))"
  by (auto simp: make_goal_def get_or_def split: sum.splits)

lemma update_fresh: "k \<notin> fst ` set acc \<Longrightarrow> AList.update k v acc = acc @ [(k, v)]"
  by (induction acc) auto

lemma load_goals_all:
  "distinct (map fst acc @ map fst records) \<Longrightarrow> all_convertible records \<Longrightarrow>
   load_goals records clk acc i =
     (None, acc @ goals_of_records records clk i, i + 2 * length records)"
proof (induction records arbitrary: acc i)
  case Nil
  then show ?case by simp
next
  case (Cons a records)
  obtain gid info where a: "a = (gid, info)" by (cases a)
  from Cons.prems(2) a have "convertible info" by simp
  then obtain g where g: "make_goal gid info clk i = Inr (g, i + 2)"
    using make_goal_returns by blast
  have fresh: "gid \<notin> fst ` set acc" using Cons.prems(1) a by auto
  have d: "distinct (map fst (acc @ [(gid, g)]) @ map fst records)"
    using Cons.prems(1) a by auto
  have rest: "all_convertible records" using Cons.prems(2) a by simp
  show ?case
    using Cons.IH [OF d rest, of "i + 2"] by (simp add: a g update_fresh [OF fresh])
qed

lemma load_goals_some:
  "distinct (map fst acc @ map fst records) \<Longrightarrow> \<not> all_convertible records \<Longrightarrow>
   \<exists>err j. load_goals records clk acc i = (Some err, acc @ goals_of_records records clk i, j)"
proof (induction records arbitrary: acc i)
  case Nil
  then show ?case by simp
next
  case (Cons a records)
  obtain gid info where a: "a = (gid, info)" by (cases a)
  show ?case
  proof (cases "convertible info")
    case False
    from make_goal_raises [OF this] obtain err where "make_goal gid info clk i = Inl err"
      by blast
    then show ?thesis by (simp add: a)
  next
    case True
    then obtain g where g: "make_goal gid info clk i = Inr (g, i + 2)"
      using make_goal_returns by blast
    have fresh: "gid \<notin> fst ` set acc" using Cons.prems(1) a by auto
    have d: "distinct (map fst (acc @ [(gid, g)]) @ map fst records)"
      using Cons.prems(1) a by auto
    have rest: "\<not> all_convertible records" using Cons.prems(2) True a by simp
    from Cons.IH [OF d rest, of "i + 2"] show ?thesis
      by (simp add: a g update_fresh [OF fresh])
  qed
qed

lemma goals_of_all_records:
  "all_convertible records \<Longrightarrow>
   length (goals_of_records records clk i) = length records \<and>
   map fst (goals_of_records records clk i) = map fst records"
proof (induction records arbitrary: i)
  case Nil
  then show ?case by simp
next
  case (Cons a records)
  obtain gid info where a: "a = (gid, info)" by (cases a)
  from Cons.prems a have "convertible info" by simp
  then obtain g where g: "make_goal gid info clk i = Inr (g, i + 2)"
    using make_goal_returns by blast
  from Cons.prems a have "all_convertible records" by simp
  from Cons.IH [OF this, of "i + 2"] show ?case by (simp add: a g)
qed

lemma goals_of_some_records:
  "\<not> all_convertible records \<Longrightarrow>
   length (goals_of_records records clk i) < length records"
proof (induction records arbitrary: i)
  case Nil
  then show ?case by simp
next
  case (Cons a records)
  obtain gid info where a: "a = (gid, info)" by (cases a)
  show ?case
  proof (cases "convertible info")
    case False
    from make_goal_raises [OF this] obtain err where "make_goal gid info clk i = Inl err"
      by blast
    then show ?thesis by (simp add: a)
  next
    case True
    then obtain g where g: "make_goal gid info clk i = Inr (g, i + 2)"
      using make_goal_returns by blast
    have rest: "\<not> all_convertible records" using Cons.prems True a by simp
    from Cons.IH [OF rest, of "i + 2"] show ?thesis by (simp add: a g)
  qed
qed

text \<open>
  C8, as stated, fails: a numeric field that \<^verbatim>\<open>float()\<close> cannot read is not coerced to 0.
  The exception is caught by the \<^verbatim>\<open>except\<close> clause around the whole loop, which returns an
  empty dict. Of three records \<^verbatim>\<open>a\<close>, \<^verbatim>\<open>b\<close>, \<^verbatim>\<open>c\<close>, with an unreadable
  \<^verbatim>\<open>target_amount\<close> in \<^verbatim>\<open>b\<close>, none is returned, and \<^verbatim>\<open>self.goals\<close> keeps \<^verbatim>\<open>a\<close> alone.
\<close>

theorem unreadable_field_empties_result:
  "fst (get_savings_goals
     (stored [(''a'', empty_record),
              (''b'', empty_record\<lparr>raw_target_amount := Some Unparseable_text\<rparr>),
              (''c'', empty_record)])
     (steady_clock nov_2026) 0) = [] \<and>
   map fst (goals (fst (snd (get_savings_goals
     (stored [(''a'', empty_record),
              (''b'', empty_record\<lparr>raw_target_amount := Some Unparseable_text\<rparr>),
              (''c'', empty_record)])
     (steady_clock nov_2026) 0)))) = [''a'']"
  by (simp add: get_savings_goals_def example_defs make_goal_def get_or_def)

text \<open>
  C8, amended: \<^verbatim>\<open>get_savings_goals\<close> never raises. For every set of raw records (a dict:
  the ids are distinct) whose numeric fields are all absent or readable by \<^verbatim>\<open>float()\<close>,
  it returns one \<^verbatim>\<open>SavingsGoal\<close> per record, in order and under the record's id; a missing
  numeric field is 0, a missing priority \<^verbatim>\<open>medium\<close>, a missing type \<^verbatim>\<open>custom\<close>, a missing
  \<^verbatim>\<open>created_date\<close> or \<^verbatim>\<open>last_updated\<close> a reading of the clock. When some record has an
  unreadable numeric field, the result is the empty dict, and \<^verbatim>\<open>self.goals\<close> holds the
  goals of the records before the first such record, fewer than there are records.
\<close>

theorem goal_store_adapter:
  assumes "get_or (savings_goals (state e)) [] = records" and "distinct (map fst records)"
    and "get_savings_goals e clk i = (returned, e', j)"
  shows "goals e' = goals_of_records records clk i \<and>
         (all_convertible records \<longrightarrow>
            returned = goals e' \<and> length returned = length records \<and>
            map fst returned = map fst records \<and> j = i + 2 * length records) \<and>
         (\<not> all_convertible records \<longrightarrow>
            returned = [] \<and> length (goals e') < length records) \<and>
         (\<forall>gid info n g k. make_goal gid info clk n = Inr (g, k) \<longrightarrow>
            goal_id g = gid \<and>
            (raw_target_amount info = None \<longrightarrow> target_amount g = 0) \<and>
            (raw_current_amount info = None \<longrightarrow> current_amount g = 0) \<and>
            (raw_monthly_contribution info = None \<longrightarrow> monthly_contribution g = 0) \<and>
            (raw_priority info = None \<longrightarrow> priority g = ''medium'') \<and>
            (raw_type info = None \<longrightarrow> goal_type g = ''custom'') \<and>
            (raw_created_date info = None \<longrightarrow> created_date g = Iso (clk n)) \<and>
            (raw_last_updated info = None \<longrightarrow> last_updated g = Iso (clk (Suc n))))"
proof -
  have d: "distinct (map fst [] @ map fst records)" using assms(2) by simp
  have dflt: "\<forall>gid info n g k. make_goal gid info clk n = Inr (g, k) \<longrightarrow>
            goal_id g = gid \<and>
            (raw_target_amount info = None \<longrightarrow> target_amount g = 0) \<and>
            (raw_current_amount info = None \<longrightarrow> current_amount g = 0) \<and>
            (raw_monthly_contribution info = None \<longrightarrow> monthly_contribution g = 0) \<and>
            (raw_priority info = None \<longrightarrow> priority g = ''medium'') \<and>
            (raw_type info = None \<longrightarrow> goal_type g = ''custom'') \<and>
            (raw_created_date info = None \<longrightarrow> created_date g = Iso (clk n)) \<and>
            (raw_last_updated info = None \<longrightarrow> last_updated g = Iso (clk (Suc n)))"
    using make_goal_defaults by blast
  show ?thesis
  proof (cases "all_convertible records")
    case True
    from load_goals_all [OF d True, of clk i] assms(1,3)
    have r: "returned = goals_of_records records clk i"
      "goals e' = goals_of_records records clk i" "j = i + 2 * length records"
      by (auto simp: get_savings_goals_def)
    have "goals e' = goals_of_records records clk i \<and>
         (all_convertible records \<longrightarrow>
            returned = goals e' \<and> length returned = length records \<and>
            map fst returned = map fst records \<and> j = i + 2 * length records) \<and>
         (\<not> all_convertible records \<longrightarrow>
            returned = [] \<and> length (goals e') < length records)"
      using True r goals_of_all_records [OF True, of clk i] by simp
    with dflt show ?thesis by (intro conjI) blast+
  next
    case False
    from load_goals_some [OF d False, of clk i] assms(1,3)
    have r: "returned = []" "goals e' = goals_of_records records clk i"
      by (auto simp: get_savings_goals_def)
    have "goals e' = goals_of_records records clk i \<and>
         (all_convertible records \<longrightarrow>
            returned = goals e' \<and> length returned = length records \<and>
            map fst returned = map fst records \<and> j = i + 2 * length records) \<and>
         (\<not> all_convertible records \<longrightarrow>
            returned = [] \<and> length (goals e') < length records)"
      using False r goals_of_some_records [OF False, of clk i] by simp
    with dflt show ?thesis by (intro conjI) blast+
  qed
qed

theorem goal_store_adapter_witness:
  "get_or (savings_goals (state (stored [(''a'', empty_record), (''c'', empty_record)]))) [] =
     [(''a'', empty_record), (''c'', empty_record)] \<and>
   distinct (map fst [(''a'', empty_record), (''c'', empty_record)]) \<and>
   all_convertible [(''a'', empty_record), (''c'', empty_record)] \<and>
   make_goal ''a'' empty_record (steady_clock nov_2026) 0 =
     Inr (\<lparr>goal_id = ''a'', name = ''Unnamed Goal'', goal_type = ''custom'',
            target_amount = 0, current_amount = 0, target_date = None,
            priority = ''medium'', monthly_contribution = 0,
            created_date = Iso nov_2026, last_updated = Iso nov_2026,
            description = None\<rparr>, 2) \<and>
   map fst (fst (get_savings_goals (stored [(''a'', empty_record), (''c'', empty_record)])
                   (steady_clock nov_2026) 0)) = [''a'', ''c''] \<and>
   snd (snd (get_savings_goals (stored [(''a'', empty_record), (''c'', empty_record)])
                   (steady_clock nov_2026) 0)) = 4"
proof -
  have a: "get_or (savings_goals (state (stored [(''a'', empty_record), (''c'', empty_record)])))
             [] = [(''a'', empty_record), (''c'', empty_record)]"
    by (simp add: stored_def get_or_def)
  have b: "distinct (map fst [(''a'', empty_record), (''c'', empty_record)])"
    by simp
  have c: "get_savings_goals (stored [(''a'', empty_record), (''c'', empty_record)])
             (steady_clock nov_2026) 0 =
           (fst (get_savings_goals (stored [(''a'', empty_record), (''c'', empty_record)])
                   (steady_clock nov_2026) 0),
            fst (snd (get_savings_goals (stored [(''a'', empty_record), (''c'', empty_record)])
                   (steady_clock nov_2026) 0)),
            snd (snd (get_savings_goals (stored [(''a'', empty_record), (''c'', empty_record)])
                   (steady_clock nov_2026) 0)))"
    by simp
  have conv: "all_convertible [(''a'', empty_record), (''c'', empty_record)]"
    by (simp add: convertible_def empty_record_def)
  have mk: "make_goal ''a'' empty_record (steady_clock nov_2026) 0 =
     Inr (\<lparr>goal_id = ''a'', name = ''Unnamed Goal'', goal_type = ''custom'',
            target_amount = 0, current_amount = 0, target_date = None,
            priority = ''medium'', monthly_contribution = 0,
            created_date = Iso nov_2026, last_updated = Iso nov_2026,
            description = None\<rparr>, 2)"
    by (simp add: make_goal_def empty_record_def get_or_def steady_clock_def)
  from goal_store_adapter [OF a b c] conv
  have res:
    "map fst (fst (get_savings_goals (stored [(''a'', empty_record), (''c'', empty_record)])
                     (steady_clock nov_2026) 0)) =
     map fst [(''a'', empty_record), (''c'', empty_record)]"
    "snd (snd (get_savings_goals (stored [(''a'', empty_record), (''c'', empty_record)])
                 (steady_clock nov_2026) 0)) =
     0 + 2 * length [(''a'', empty_record), (''c'', empty_record)]"
    by blast+
  have "map fst (fst (get_savings_goals (stored [(''a'', empty_record), (''c'', empty_record)])
                        (steady_clock nov_2026) 0)) = [''a'', ''c'']"
    unfolding res by simp
  moreover
  have "snd (snd (get_savings_goals (stored [(''a'', empty_record), (''c'', empty_record)])
                   (steady_clock nov_2026) 0)) = 4"
    unfolding res by simp
  ultimately show ?thesis
    using a b conv mk by (intro conjI)
qed

subsection \<open>Report\<close>

lemma compile_report_capacity:
  "compile_report e clk i = Inr (r, j) \<Longrightarrow>
   savings_capacity r = estimate_monthly_savings_capacity e"
  by (auto simp: compile_report_def Let_def split: sum.splits prod.splits)

lemma public_report_capacity:
  "get_savings_goals_report e clk i = Inr (r, j) \<Longrightarrow> base_capacity (savings_capacity r) = 0"
  by (auto simp: report_defs get_or_def capacity_defs round_defs)





subsection \<open>Negative base capacity\<close>

lemma round_half_even_neg: "y < - (1 / 2) \<Longrightarrow> round_half_even y \<le> - 1"
proof -
  assume a: "y < - (1 / 2)"
  have f: "\<lfloor>y\<rfloor> \<le> - 1" using a by (simp add: floor_le_iff)
  have "\<lfloor>y\<rfloor> = - 1 \<Longrightarrow> y - of_int \<lfloor>y\<rfloor> < 1 / 2" using a by simp
  then show ?thesis
    unfolding round_half_even_def Let_def using f by (cases "\<lfloor>y\<rfloor> = - 1") auto
qed

lemma py_round_neg: "x < - (1 / 200) \<Longrightarrow> py_round x 2 < 0"
proof -
  assume "x < - (1 / 200)"
  then have "x * 10 ^ 2 < - (1 / 2)" by simp
  from round_half_even_neg [OF this] have "real_of_int (round_half_even (x * 10 ^ 2)) \<le> - 1"
    by linarith
  then show ?thesis unfolding py_round_def by (simp add: divide_less_0_iff)
qed

lemma py_round_nonpos: "x \<le> 0 \<Longrightarrow> py_round x n \<le> 0"
  using py_round_mono [of x 0 n] by (simp add: py_round_zero)

text \<open>
  C10, as stated, fails twice. The base is rounded to two decimals: with expenses of
  0.001 and no income the base is negative and the \<^verbatim>\<open>base_capacity\<close> returned is 0. And
  \<^verbatim>\<open>get_savings_goals_report\<close> replaces the state by the one \<^verbatim>\<open>load_state\<close> loads: called
  on an engine with income 1000 and expenses 1500, whose estimate has \<^verbatim>\<open>base_capacity\<close>
  -500, it returns a report whose \<^verbatim>\<open>base_capacity\<close> is 0.
\<close>

theorem base_capacity_rounded_and_reloaded:
  "base_savings (signals 0 0.001) < 0 \<and>
   base_capacity (estimate_monthly_savings_capacity (signals 0 0.001)) = 0 \<and>
   base_capacity (estimate_monthly_savings_capacity (signals 1000 1500)) = - 500 \<and>
   map_sum id (base_capacity \<circ> savings_capacity \<circ> fst)
     (get_savings_goals_report (signals 1000 1500) (steady_clock nov_2026) 0) = Inr 0"
  by (simp add: signals_def report_defs get_or_def capacity_defs round_defs)

text \<open>
  C10, amended: for every signal snapshot in which expenses plus the overspending
  adjustment exceed income, the \<^verbatim>\<open>base_capacity\<close> returned by
  \<^verbatim>\<open>estimate_monthly_savings_capacity\<close> is the base rounded to two decimals and not floored:
  it is at most 0, and strictly negative when the base is below -0.005, while all four
  bands are 0. The rest of \<^verbatim>\<open>get_savings_goals_report\<close> after its loading calls puts this
  dict unchanged into \<^verbatim>\<open>savings_capacity\<close>; the method as a whole reports the state that
  \<^verbatim>\<open>load_state\<close> loads, whose \<^verbatim>\<open>base_capacity\<close> is 0.
\<close>

theorem negative_base_capacity:
  assumes "base_savings e < 0"
  shows "base_capacity (estimate_monthly_savings_capacity e) = py_round (base_savings e) 2 \<and>
         base_capacity (estimate_monthly_savings_capacity e) \<le> 0 \<and>
         (base_savings e < - 0.005 \<longrightarrow> base_capacity (estimate_monthly_savings_capacity e) < 0) \<and>
         conservative (estimate_monthly_savings_capacity e) = 0 \<and>
         moderate (estimate_monthly_savings_capacity e) = 0 \<and>
         aggressive (estimate_monthly_savings_capacity e) = 0 \<and>
         maximum (estimate_monthly_savings_capacity e) = 0 \<and>
         (\<forall>clk i r j. compile_report e clk i = Inr (r, j) \<longrightarrow>
            savings_capacity r = estimate_monthly_savings_capacity e) \<and>
         (\<forall>clk i r j. get_savings_goals_report e clk i = Inr (r, j) \<longrightarrow>
            base_capacity (savings_capacity r) = 0)"
proof -
  have m: "0 < stress_multiplier e" by (rule stress_multiplier_pos)
  have floor0: "py_round (max 0 x) 2 = 0" if "x \<le> 0" for x
    using that by (simp add: max_def py_round_zero)
  have neg: "base_savings e * k * stress_multiplier e \<le> 0" if "0 \<le> k" for k
    using assms m that by (simp add: mult_nonpos_nonneg)
  have neg': "base_savings e * stress_multiplier e \<le> 0"
    using assms m by (simp add: mult_nonpos_nonneg)
  have b: "base_capacity (estimate_monthly_savings_capacity e) = py_round (base_savings e) 2"
    by (simp add: estimate_monthly_savings_capacity_def Let_def)
  have c: "conservative (estimate_monthly_savings_capacity e) = 0"
    unfolding estimate_monthly_savings_capacity_def Let_def
    using floor0 [OF neg [of "0.2"]] by simp
  have mo: "moderate (estimate_monthly_savings_capacity e) = 0"
    unfolding estimate_monthly_savings_capacity_def Let_def
    using floor0 [OF neg [of "0.4"]] by simp
  have ag: "aggressive (estimate_monthly_savings_capacity e) = 0"
    unfolding estimate_monthly_savings_capacity_def Let_def
    using floor0 [OF neg [of "0.7"]] by simp
  have ma: "maximum (estimate_monthly_savings_capacity e) = 0"
    unfolding estimate_monthly_savings_capacity_def Let_def
    using floor0 [OF neg'] by simp
  have le: "py_round (base_savings e) 2 \<le> 0" using assms by (simp add: py_round_nonpos)
  have lt: "base_savings e < - 0.005 \<Longrightarrow> py_round (base_savings e) 2 < 0"
    using py_round_neg [of "base_savings e"] by simp
  show ?thesis
    unfolding b c mo ag ma
    using le lt compile_report_capacity [of e] public_report_capacity [of e]
    by (simp add: b)
qed

theorem negative_base_capacity_witness:
  "base_savings (signals 1000 1500) < 0 \<and>
   estimate_monthly_savings_capacity (signals 1000 1500) =
     \<lparr>base_capacity = - 500, conservative = 0, moderate = 0, aggressive = 0, maximum = 0,
      stress_adjusted = False, overspending_impact = False\<rparr> \<and>
   (\<exists>r. compile_report (signals 1000 1500) (steady_clock nov_2026) 0 = Inr (r, 1) \<and>
        base_capacity (savings_capacity r) = - 500)"
proof -
  have a: "base_savings (signals 1000 1500) < 0"
    by (simp add: signals_def capacity_defs)
  obtain r where r: "compile_report (signals 1000 1500) (steady_clock nov_2026) 0 = Inr (r, 1)"
    by (simp add: signals_def compile_report_def generate_savings_insights_def
        detect_goal_conflicts_def integrate_overspending_impact_def
        adjust_goals_using_stress_def get_or_def get_overspending_data_def)
  have e: "estimate_monthly_savings_capacity (signals 1000 1500) =
     \<lparr>base_capacity = - 500, conservative = 0, moderate = 0, aggressive = 0, maximum = 0,
      stress_adjusted = False, overspending_impact = False\<rparr>"
    by (simp add: signals_def capacity_defs round_defs)
  from negative_base_capacity [OF a] r
  have "savings_capacity r = estimate_monthly_savings_capacity (signals 1000 1500)"
    by blast
  with a e r show ?thesis by simp
qed

end
